theory Spec2Isabelle
  imports Complex_Main "HOL-Library.Signed_Division"
begin

section \<open>Go values shared by the models\<close>

text \<open>
  A Go \<open>error\<close> is either created from a message (\<open>errors.New\<close>, \<open>fmt.Errorf\<close>) or
  wraps another error with a message (\<open>errors.Wrap(err, msg)\<close>). A nil error is \<open>None\<close>
  of \<open>err option\<close>.
\<close>

datatype err = New string | Wrap err string

text \<open>
  Go's \<open>int\<close> is 64 bits wide on the platforms the program is built for. Where the
  code computes with an \<open>int\<close> the result is brought back into the signed 64-bit range.
\<close>

definition wrap64 :: "int \<Rightarrow> int" where
  "wrap64 x = (x + 2 ^ 63) mod 2 ^ 64 - 2 ^ 63"

section \<open>The command line: \<open>validateTrainRequest\<close> (kubeml-cli/cmd, train command)\<close>

definition maxBatchSize :: int where
  "maxBatchSize = 1024"

text \<open>
  The package-level flag variables the validation reads. \<open>lr\<close> is a \<open>float32\<close>; only
  its comparison with zero is used, which the reals reproduce for every number (a NaN,
  for which every comparison is false, is not a real).
\<close>

record flags =
  dataset :: string
  epochs :: int
  lr :: real
  functionName :: string

text \<open>Of the request only \<open>BatchSize\<close> is read through \<open>req\<close>.\<close>

record TrainRequest =
  BatchSize :: int

text \<open>
  The two services the validation asks: the KubeML controller for the dataset, and the
  Fission client for the function. Each call answers with a Go error or nil.
\<close>

record services =
  datasets_Get :: "string \<Rightarrow> err option"
  MakeFissionClient :: "err option"
  functions_Get :: "string \<Rightarrow> err option"

definition datasetExists :: "services \<Rightarrow> string \<Rightarrow> bool \<times> err option" where
  "datasetExists client name =
     (case datasets_Get client name of
        Some e \<Rightarrow> (False, Some e)
      | None \<Rightarrow> (True, None))"

definition functionExists :: "services \<Rightarrow> string \<Rightarrow> bool \<times> err option" where
  "functionExists client name =
     (case MakeFissionClient client of
        Some e \<Rightarrow> (False, Some e)
      | None \<Rightarrow>
          (case functions_Get client name of
             None \<Rightarrow> (True, None)
           | Some e \<Rightarrow> (False, Some e)))"

text \<open>
  \<open>multierror.Error\<close> holds the list of appended errors; \<open>ErrorOrNil\<close> is nil when the
  list is empty and the aggregate otherwise.
\<close>

definition ErrorOrNil :: "err list \<Rightarrow> err list option" where
  "ErrorOrNil es = (if es = [] then None else Some es)"

definition batch_msg :: err where
  "batch_msg = New ''batch size should be between 0 and 1024''"

definition epochs_msg :: err where
  "epochs_msg = New ''epochs should be a positive value''"

definition lr_msg :: err where
  "lr_msg = New ''learning rate should be bigger than zero''"

definition dataset_msg :: "string \<Rightarrow> err" where
  "dataset_msg name = New (''dataset '' @ [CHR 0x22] @ name @ [CHR 0x22] @ '' does not exist'')"

definition function_msg :: "string \<Rightarrow> err" where
  "function_msg name = New (''function '' @ [CHR 0x22] @ name @ [CHR 0x22] @ '' does not exist'')"

definition validateTrainRequest :: "services \<Rightarrow> flags \<Rightarrow> TrainRequest \<Rightarrow> err list option" where
  "validateTrainRequest client g req =
     (let e0 = [];
          e1 = (if BatchSize req \<le> 0 \<or> BatchSize req > maxBatchSize
                then e0 @ [batch_msg] else e0);
          e2 = (if epochs g \<le> 0 then e1 @ [epochs_msg] else e1);
          e3 = (if lr g \<le> 0 then e2 @ [lr_msg] else e2);
          e4 = (case datasetExists client (dataset g) of
                  (exists, er) \<Rightarrow>
                    if er \<noteq> None \<or> \<not> exists then e3 @ [dataset_msg (dataset g)] else e3);
          e5 = (case functionExists client (functionName g) of
                  (exists, er) \<Rightarrow>
                    if er \<noteq> None \<or> \<not> exists then e4 @ [function_msg (functionName g)] else e4)
      in ErrorOrNil e5)"

text \<open>The five conditions of the claim, read off the services and the flags.\<close>

definition batch_bad :: "TrainRequest \<Rightarrow> bool" where
  "batch_bad req = (\<not> (0 < BatchSize req \<and> BatchSize req \<le> 1024))"

definition dataset_missing :: "services \<Rightarrow> flags \<Rightarrow> bool" where
  "dataset_missing client g = (datasets_Get client (dataset g) \<noteq> None)"

definition function_missing :: "services \<Rightarrow> flags \<Rightarrow> bool" where
  "function_missing client g =
     (MakeFissionClient client \<noteq> None \<or> functions_Get client (functionName g) \<noteq> None)"

section \<open>The job controller: \<open>TrainJob.Train\<close> (train/job.go)\<close>

text \<open>
  The controller goroutine is modelled as a state transformer over the fields of
  \<open>TrainJob\<close> it reads and writes. Every call that leaves the goroutine (a function
  invocation fan-out, a channel operation, a client call, an error-level log line) is
  recorded in \<open>trace\<close> in program order; what the outside answers is supplied by an
  environment record. Debug and info log lines and wall-clock bookkeeping are left out.
\<close>

datatype MergeResult = MergeSucceeded | MergeFailed

datatype event =
    InitModel
  | MakeFinishCh int
  | WgAdd int
  | StoreFinishedFuncs int
  | SendStartMerger
  | InvokeTrain
  | RecvErrChan
  | UpdateTrainMetrics
  | UpdateJob
  | RecvSchedulerCh int
  | RecvMerged
  | InvokeVal
  | UpdateValMetrics
  | SendAccuracyCh
  | RecvStopChan
  | RecvAccuracyCh
  | SaveHistory
  | ClearTensors
  | PoolClose
  | JobFinished "err option"
  | LogError string
  | RecvStartMerger
  | ModelClear
  | WgWait
  | CloseFinishCh nat
  | Average nat
  | ModelSave
  | SendErrChan err
  | Answer nat MergeResult
  | SendMerged

text \<open>The settings of \<open>api.TrainTask\<close> that the job reads.\<close>

record TrainTask =
  Epochs :: int
  Parallelism :: int
  StaticParallelism :: bool
  ValidateEvery :: int
  K :: int
  GoalAccuracy :: real

text \<open>
  \<open>accuracyCh\<close> is the number of values waiting in the buffered channel of that name.
  Accuracies are \<open>float64\<close> in the source; only their comparison is used.

  \<open>merger_at_start\<close> is not a field of the Go struct. It records where the merger
  goroutine is, as far as the controller depends on it: it holds when the merger is at
  \<open>errChan := <-job.startMerger\<close>, so that a send on the unbuffered \<open>startMerger\<close>
  completes, and it fails from the moment the merger has taken an \<open>errChan\<close> until it
  has left the inner loop of that epoch.
\<close>

record TrainJob =
  task :: TrainTask
  epoch :: int
  parallelism :: int
  static :: bool
  validateEvery :: int
  jobK :: int
  goalAccuracy :: real
  accuracyCh :: nat
  accuracyReached :: bool
  exitErr :: "err option"
  trace :: "event list"
  merger_at_start :: bool

text \<open>\<open>make(chan struct{}, 1)\<close> in both constructors.\<close>

definition accuracyCh_cap :: nat where
  "accuracyCh_cap = 1"

definition extractTaskSettings :: "TrainTask \<Rightarrow> TrainJob \<Rightarrow> TrainJob" where
  "extractTaskSettings t job =
     job\<lparr>task := t,
         parallelism := Parallelism t,
         static := StaticParallelism t,
         validateEvery := ValidateEvery t,
         jobK := K t,
         goalAccuracy := GoalAccuracy t\<rparr>"

text \<open>
  The merger goroutine is started with the job by code that is not in the sources; when
  \<open>Train\<close> begins it waits at \<open>startMerger\<close>.
\<close>

definition NewTrainJob :: "TrainTask \<Rightarrow> TrainJob" where
  "NewTrainJob t =
     extractTaskSettings t
       \<lparr>task = t, epoch = 0, parallelism = 0, static = False, validateEvery = 0, jobK = 0,
        goalAccuracy = 0, accuracyCh = 0, accuracyReached = False, exitErr = None,
        trace = [], merger_at_start = True\<rparr>"

definition emit :: "event list \<Rightarrow> TrainJob \<Rightarrow> TrainJob" where
  "emit evs job = job\<lparr>trace := trace job @ evs\<rparr>"

text \<open>
  What the outside answers during one validation, one epoch, and the whole job. Calls
  that leave the program (function invocations, the scheduler client and its answer on
  \<open>schedulerCh\<close>, the stores) are taken to return.

  \<open>errChan\<close> is what the merger has reported by the time \<open>train\<close> polls the channel.
  \<open>merger_then\<close> is what the merger does with the epoch when it has reported nothing by
  then: it gets to its send on \<open>merged\<close>; or it reports an error on \<open>errChan\<close> after
  the poll and goes back to \<open>startMerger\<close>; or it does neither (it waits for functions
  that do not come, or it has panicked).
\<close>

datatype merger_fate = MergerSignals | MergerFailsLate | MergerHangs

record val_env =
  invokeValFunctions :: "err + real \<times> real"
  updateValidationMetrics :: "err option"

record epoch_env =
  invokeTrainFunctions :: "err option"
  errChan :: "err option"
  updateTrainMetrics :: "err option"
  UpdateJob_res :: "err option"
  update_Parallelism :: int
  IsDebugEnv :: bool
  LimitParallelism :: bool
  validation :: val_env
  stop_ready :: bool
  pick_stop :: bool
  merger_then :: merger_fate

record job_env =
  invokeInitFunction :: "err + nat"
  model_Build :: "err option"
  epoch_envs :: "epoch_env list"
  final_validation :: val_env

text \<open>
  How a call ends: it returns (with a Go error or nil), it blocks for ever on a channel,
  or it panics. How a block of statements ends: it runs to its end, or leaves through
  \<open>continue\<close>, \<open>break main\<close> or \<open>return\<close>, or it has panicked, or the goroutine is
  blocked for ever: \<open>Stuck\<close> in the send on \<open>accuracyCh\<close>, \<open>Halted ev\<close> in the
  operation \<open>ev\<close> on a channel it shares with the merger (the send on \<open>startMerger\<close>
  or the receive on \<open>merged\<close>, both unbuffered). \<open>Starved\<close> says that the list of epoch
  answers was used up while the loop was still running. The trace holds the operations
  that were completed.
\<close>

datatype call = Returns "err option" | BlocksForever | Panics

datatype ctl =
  Fallthrough | ContinueMain | BreakMain | ReturnTrain | Stuck | Halted event | Crash | Starved

text \<open>\<open>init\<close>: the init function returns the layer names (here their number).\<close>

definition init :: "job_env \<Rightarrow> err option" where
  "init env =
     (case invokeInitFunction env of
        Inl e \<Rightarrow> Some (Wrap e ''error invoking init function'')
      | Inr layers \<Rightarrow>
          if layers = 0 then Some (New ''length of the layers is zero'')
          else (case model_Build env of
                  Some e \<Rightarrow> Some (Wrap e ''error building model'')
                | None \<Rightarrow> None))"

text \<open>
  \<open>train\<close>: \<open>make(chan, n)\<close> panics for a negative \<open>n\<close>. The send on \<open>startMerger\<close>
  (line 305) completes when the merger is there to receive; otherwise \<open>train\<close> blocks
  in it. Once the merger has taken \<open>errChan\<close> it is inside its inner loop; an error
  found in \<open>errChan\<close> at the poll (lines 314 to 318) means that it has left the loop
  again.
\<close>

definition train :: "epoch_env \<Rightarrow> TrainJob \<Rightarrow> TrainJob \<times> call" where
  "train e job =
     (if parallelism job < 0 then (job, Panics)
      else
        (let job0 = emit [MakeFinishCh (parallelism job), WgAdd (parallelism job),
                          StoreFinishedFuncs 0] job
         in if \<not> merger_at_start job0 then (job0, BlocksForever)
            else
              (let job1 = (emit [SendStartMerger, InvokeTrain] job0)\<lparr>merger_at_start := False\<rparr>
               in case invokeTrainFunctions e of
                    Some er \<Rightarrow> (job1, Returns (Some (Wrap er ''error invoking functions'')))
                  | None \<Rightarrow>
                      (case errChan e of
                         Some er \<Rightarrow>
                           ((emit [RecvErrChan] job1)\<lparr>merger_at_start := True\<rparr>,
                            Returns (Some (Wrap er ''error merging model'')))
                       | None \<Rightarrow>
                           (case updateTrainMetrics e of
                              Some er \<Rightarrow>
                                (emit [UpdateTrainMetrics, LogError ''error updating metrics'']
                                   job1,
                                 Returns None)
                            | None \<Rightarrow> (emit [UpdateTrainMetrics] job1, Returns None))))))"

text \<open>\<open>validate\<close>: the send on \<open>accuracyCh\<close> blocks when the buffer is full.\<close>

definition validate :: "val_env \<Rightarrow> TrainJob \<Rightarrow> TrainJob \<times> call" where
  "validate v job =
     (let job1 = emit [InvokeVal] job
      in case invokeValFunctions v of
           Inl er \<Rightarrow> (job1, Returns (Some (Wrap er ''error during validation'')))
         | Inr (accuracy, loss) \<Rightarrow>
             (let job2 = emit [UpdateValMetrics] job1
              in case updateValidationMetrics v of
                   Some er \<Rightarrow> (job2, Returns (Some (Wrap er ''error sending val results'')))
                 | None \<Rightarrow>
                     if accuracy \<ge> goalAccuracy job2 then
                       (if accuracyCh job2 < accuracyCh_cap
                        then (emit [SendAccuracyCh] (job2\<lparr>accuracyCh := accuracyCh job2 + 1\<rparr>),
                              Returns None)
                        else (job2, BlocksForever))
                     else (job2, Returns None)))"

text \<open>Lines 196 to 215 of \<open>Train\<close>: the renegotiation with the scheduler.\<close>

definition negotiate :: "epoch_env \<Rightarrow> TrainJob \<Rightarrow> TrainJob \<times> ctl" where
  "negotiate e job =
     (if \<not> static job \<and> epoch job < Epochs (task job) then
        (case UpdateJob_res e of
           Some er \<Rightarrow> (emit [UpdateJob, LogError ''Error updating parallelism''] job, ContinueMain)
         | None \<Rightarrow>
             (let job1 = emit [UpdateJob, RecvSchedulerCh (update_Parallelism e)] job;
                  job2 = job1\<lparr>task := (task job1)\<lparr>Parallelism := update_Parallelism e\<rparr>\<rparr>
              in (if \<not> IsDebugEnv e \<and> \<not> LimitParallelism e
                  then job2\<lparr>parallelism := update_Parallelism e\<rparr> else job2,
                  Fallthrough)))
      else (job, Fallthrough))"

text \<open>Lines 221 to 231: the validation inside the loop. Go's \<open>%\<close> truncates.\<close>

definition maybe_validate :: "epoch_env \<Rightarrow> TrainJob \<Rightarrow> TrainJob \<times> ctl" where
  "maybe_validate e job =
     (if validateEvery job \<noteq> 0 \<and> epoch job smod validateEvery job = 0
          \<and> epoch job \<noteq> Epochs (task job) then
        (case validate (validation e) job of
           (job1, Returns (Some er)) \<Rightarrow>
             (emit [LogError ''error performing validation''] job1, Fallthrough)
         | (job1, Returns None) \<Rightarrow> (job1, Fallthrough)
         | (job1, BlocksForever) \<Rightarrow> (job1, Stuck)
         | (job1, Panics) \<Rightarrow> (job1, Crash))
      else (job, Fallthrough))"

text \<open>
  Lines 234 to 245: the non-blocking select. When both channels hold a value the
  runtime picks one of the two cases; \<open>pick_stop\<close> is its choice.
\<close>

definition goal_check :: "epoch_env \<Rightarrow> TrainJob \<Rightarrow> TrainJob \<times> ctl" where
  "goal_check e job =
     (if stop_ready e \<and> (pick_stop e \<or> accuracyCh job = 0) then
        ((emit [RecvStopChan] job)
           \<lparr>accuracyReached := True, exitErr := Some (New ''job was force stopped'')\<rparr>,
         BreakMain)
      else if 0 < accuracyCh job then
        ((emit [RecvAccuracyCh] job)
           \<lparr>accuracyCh := accuracyCh job - 1, accuracyReached := True\<rparr>,
         BreakMain)
      else (job, Fallthrough))"

text \<open>
  The body of the \<open>main\<close> loop, lines 188 to 245. The receive on \<open>merged\<close> (line 219)
  completes when the merger gets to its send, after which the merger goes back to
  \<open>startMerger\<close>; otherwise the controller blocks in the receive. When the pass is left
  by \<open>continue\<close> nobody receives on \<open>merged\<close>: a merger that gets to its send stays in
  it, and only one that has failed after the poll is back at \<open>startMerger\<close>.
\<close>

definition epoch_body :: "epoch_env \<Rightarrow> TrainJob \<Rightarrow> TrainJob \<times> ctl" where
  "epoch_body e job =
     (case train e job of
        (job1, Panics) \<Rightarrow> (job1, Crash)
      | (job1, BlocksForever) \<Rightarrow> (job1, Halted SendStartMerger)
      | (job1, Returns (Some er)) \<Rightarrow>
          ((emit [LogError ''Error training model''] job1)\<lparr>exitErr := Some er\<rparr>, ReturnTrain)
      | (job1, Returns None) \<Rightarrow>
          (case negotiate e job1 of
             (job2, Fallthrough) \<Rightarrow>
               (case merger_then e of
                  MergerSignals \<Rightarrow>
                    (case maybe_validate e
                            ((emit [RecvMerged] job2)\<lparr>merger_at_start := True\<rparr>) of
                       (job3, Fallthrough) \<Rightarrow> goal_check e job3
                     | r \<Rightarrow> r)
                | MergerFailsLate \<Rightarrow> (job2, Halted RecvMerged)
                | MergerHangs \<Rightarrow> (job2, Halted RecvMerged))
           | (job2, ContinueMain) \<Rightarrow>
               (job2\<lparr>merger_at_start := (merger_then e = MergerFailsLate)\<rparr>, ContinueMain)
           | r \<Rightarrow> r))"

text \<open>
  \<open>for job.epoch = 1; job.epoch <= Epochs; job.epoch++\<close>, one record of answers per
  iteration. The initialisation \<open>job.epoch = 1\<close> is done by the caller.
\<close>

fun main_loop :: "epoch_env list \<Rightarrow> TrainJob \<Rightarrow> TrainJob \<times> ctl" where
  "main_loop [] job =
     (if epoch job \<le> Epochs (task job) then (job, Starved) else (job, Fallthrough))"
| "main_loop (e # es) job =
     (if epoch job \<le> Epochs (task job) then
        (case epoch_body e job of
           (job1, Fallthrough) \<Rightarrow> main_loop es (job1\<lparr>epoch := wrap64 (epoch job1 + 1)\<rparr>)
         | (job1, ContinueMain) \<Rightarrow> main_loop es (job1\<lparr>epoch := wrap64 (epoch job1 + 1)\<rparr>)
         | r \<Rightarrow> r)
      else (job, Fallthrough))"

text \<open>Lines 248 to 263: the last validation and the history.\<close>

definition final_stage :: "val_env \<Rightarrow> TrainJob \<Rightarrow> TrainJob \<times> ctl" where
  "final_stage v job =
     (if \<not> accuracyReached job then
        (case validate v job of
           (job1, Returns (Some er)) \<Rightarrow>
             (emit [LogError ''error performing validation'', SaveHistory] job1, Fallthrough)
         | (job1, Returns None) \<Rightarrow> (emit [SaveHistory] job1, Fallthrough)
         | (job1, BlocksForever) \<Rightarrow> (job1, Stuck)
         | (job1, Panics) \<Rightarrow> (job1, Crash))
      else (emit [SaveHistory] job, Fallthrough))"

text \<open>The deferred function of \<open>Train\<close>, lines 161 to 170.\<close>

definition deferred :: "TrainJob \<Rightarrow> TrainJob" where
  "deferred job = emit [ClearTensors, PoolClose, JobFinished (exitErr job)] job"

definition Train_body :: "job_env \<Rightarrow> TrainJob \<Rightarrow> TrainJob \<times> ctl" where
  "Train_body env job =
     (let job0 = emit [InitModel] job
      in case init env of
           Some er \<Rightarrow>
             ((emit [LogError ''Could not initialize model''] job0)\<lparr>exitErr := Some er\<rparr>,
              ReturnTrain)
         | None \<Rightarrow>
             (case main_loop (epoch_envs env) (job0\<lparr>epoch := 1\<rparr>) of
                (job1, Fallthrough) \<Rightarrow> final_stage (final_validation env) job1
              | (job1, BreakMain) \<Rightarrow> final_stage (final_validation env) job1
              | r \<Rightarrow> r))"

text \<open>
  A deferred call runs when the function returns and when it panics; it does not run
  while the goroutine is blocked.
\<close>

definition Train :: "job_env \<Rightarrow> TrainJob \<Rightarrow> TrainJob \<times> ctl" where
  "Train env job =
     (case Train_body env job of
        (job1, Stuck) \<Rightarrow> (job1, Stuck)
      | (job1, Halted ev) \<Rightarrow> (job1, Halted ev)
      | (job1, Starved) \<Rightarrow> (job1, Starved)
      | (job1, c) \<Rightarrow> (deferred job1, c))"

section \<open>The merger: \<open>TrainJob.mergeModel\<close> and \<open>answerFunctions\<close> (train/job.go)\<close>

text \<open>
  The merger goroutine works on the job's synchronisation fields. Channels live in a
  store: the list \<open>channels\<close>, a channel's address being its index, so that
  \<open>make\<close> appends a channel and returns an address no older channel has. \<open>wgIteration\<close>
  is the pointer to the wait group the constructor allocated and \<open>wg_counter\<close> that
  wait group's counter. A response channel is \<open>Some\<close> address, or \<open>None\<close> for nil.
\<close>

record chan_state =
  capacity :: int
  is_closed :: bool

record finishNotification =
  funcId :: int
  respChan :: "nat option"

record Merger =
  wgIteration :: nat
  wg_counter :: int
  finishCh :: nat
  channels :: "chan_state list"
  mtrace :: "event list"

text \<open>
  What one barrier finds: the notifications buffered in \<open>finishCh\<close> when the wait group
  reaches zero, the results of \<open>Average\<close> and \<open>Save\<close>, and the values of
  \<open>job.finishedFuncs\<close> and \<open>job.parallelism\<close> when the merger loads them.
\<close>

record barrier =
  arrivals :: "finishNotification list"
  Average_res :: "err option"
  Save_res :: "err option"
  finishedFuncs :: int
  job_parallelism :: int

definition memit :: "event list \<Rightarrow> Merger \<Rightarrow> Merger" where
  "memit evs m = m\<lparr>mtrace := mtrace m @ evs\<rparr>"

fun answerFunctions :: "MergeResult \<Rightarrow> nat option list \<Rightarrow> event list" where
  "answerFunctions result [] = []"
| "answerFunctions result (None # chs) = answerFunctions result chs"
| "answerFunctions result (Some ch # chs) = Answer ch result # answerFunctions result chs"

text \<open>
  How one pass of the inner loop ends: another barrier follows, the epoch is merged
  (\<open>break\<close> after the send on \<open>merged\<close>), the epoch failed (\<open>break\<close> after the send on
  \<open>errChan\<close>), the goroutine panicked, or (only for the whole epoch) it is still waiting
  in \<open>wgIteration.Wait()\<close> for functions to check in, or (only for the outer loop) it
  waits for the next \<open>errChan\<close> on \<open>startMerger\<close>.
\<close>

datatype merge_end =
  NextBarrier | Merged | Failed err | MergerCrash | AwaitingFunctions | AwaitingStart

definition remaining :: "barrier \<Rightarrow> int" where
  "remaining b = wrap64 (job_parallelism b - finishedFuncs b)"

text \<open>
  One pass of the inner loop, lines 374 to 438. \<open>Wait\<close> returns once the counter of the
  wait group is zero. \<open>close\<close> panics on a nil or closed channel, and
  \<open>WaitGroup.Add\<close> panics when the counter would become negative.
\<close>

definition merge_barrier :: "barrier \<Rightarrow> Merger \<Rightarrow> Merger \<times> merge_end" where
  "merge_barrier b m =
     (let m1 = (memit [ModelClear, WgWait] m)\<lparr>wg_counter := 0\<rparr>
      in if \<not> finishCh m1 < length (channels m1) \<or> is_closed (channels m1 ! finishCh m1)
         then (m1, MergerCrash)
         else
          (let m2 = (memit [CloseFinishCh (finishCh m1)] m1)
                      \<lparr>channels := (channels m1)
                          [finishCh m1 := (channels m1 ! finishCh m1)\<lparr>is_closed := True\<rparr>]\<rparr>;
               funcs = map funcId (arrivals b);
               chans = map respChan (arrivals b)
           in if length funcs = 0
              then (memit [SendErrChan (New ''no functions returned for merging'')] m2,
                    Failed (New ''no functions returned for merging''))
              else
               (let m3 = memit [Average (length funcs)] m2
                in case Average_res b of
                     Some er \<Rightarrow>
                       (memit (answerFunctions MergeFailed chans @ [SendErrChan er]) m3, Failed er)
                   | None \<Rightarrow>
                       (let m4 = memit [ModelSave] m3
                        in case Save_res b of
                             Some er \<Rightarrow>
                               (memit (LogError ''error saving model''
                                         # answerFunctions MergeFailed chans @ [SendErrChan er]) m4,
                                Failed er)
                           | None \<Rightarrow>
                               if remaining b = 0 then (memit [SendMerged] m4, Merged)
                               else if wg_counter m4 + remaining b < 0 then (m4, MergerCrash)
                               else
                                 ((memit (WgAdd (remaining b) # MakeFinishCh (remaining b)
                                            # answerFunctions MergeSucceeded chans) m4)
                                    \<lparr>wg_counter := wg_counter m4 + remaining b,
                                     finishCh := length (channels m4),
                                     channels := channels m4
                                        @ [\<lparr>capacity = remaining b, is_closed = False\<rparr>]\<rparr>,
                                  NextBarrier)))))"

text \<open>
  The inner loop for one epoch, entered after \<open>errChan := <-job.startMerger\<close>, over the
  barriers the epoch brings. With no barrier left the merger has cleared the model and
  waits.
\<close>

fun merge_epoch :: "barrier list \<Rightarrow> Merger \<Rightarrow> Merger \<times> merge_end" where
  "merge_epoch [] m = (memit [ModelClear, WgWait] m, AwaitingFunctions)"
| "merge_epoch (b # bs) m =
     (case merge_barrier b m of
        (m1, NextBarrier) \<Rightarrow> merge_epoch bs m1
      | r \<Rightarrow> r)"

text \<open>The events one epoch, and one barrier, add to the merger's trace.\<close>

definition epoch_events :: "barrier list \<Rightarrow> Merger \<Rightarrow> event list" where
  "epoch_events bs m = drop (length (mtrace m)) (mtrace (fst (merge_epoch bs m)))"

definition barrier_events :: "barrier \<Rightarrow> Merger \<Rightarrow> event list" where
  "barrier_events b m = drop (length (mtrace m)) (mtrace (fst (merge_barrier b m)))"

text \<open>
  The outer loop of \<open>mergeModel\<close>, over the epochs the controller starts. Before
  \<open>train\<close> sends \<open>errChan\<close> on \<open>startMerger\<close> it has made a new \<open>finishCh\<close> with
  room for \<open>job.parallelism\<close> notifications and has added \<open>job.parallelism\<close> to the wait
  group; \<open>arm\<close> is the state in which the merger takes up the epoch. Before the first
  epoch \<open>finishCh\<close> is nil (no channel of the store) and the wait group is at zero.
\<close>

record epoch_in =
  epoch_parallelism :: int
  barriers :: "barrier list"

definition NewMerger :: Merger where
  "NewMerger = \<lparr>wgIteration = 0, wg_counter = 0, finishCh = 0, channels = [], mtrace = []\<rparr>"

definition arm :: "epoch_in \<Rightarrow> Merger \<Rightarrow> Merger" where
  "arm ep m =
     (memit [RecvStartMerger] m)
       \<lparr>wg_counter := wg_counter m + epoch_parallelism ep,
        finishCh := length (channels m),
        channels := channels m @ [\<lparr>capacity = epoch_parallelism ep, is_closed = False\<rparr>]\<rparr>"

fun mergeModel :: "epoch_in list \<Rightarrow> Merger \<Rightarrow> Merger \<times> merge_end" where
  "mergeModel [] m = (m, AwaitingStart)"
| "mergeModel (ep # eps) m =
     (case merge_epoch (barriers ep) (arm ep m) of
        (m1, Merged) \<Rightarrow> mergeModel eps m1
      | (m1, Failed er) \<Rightarrow> mergeModel eps m1
      | r \<Rightarrow> r)"

text \<open>A barrier whose merge succeeds: it has participants, and \<open>Average\<close> and \<open>Save\<close> return nil.\<close>

definition merges :: "barrier \<Rightarrow> bool" where
  "merges b = (arrivals b \<noteq> [] \<and> Average_res b = None \<and> Save_res b = None)"

section \<open>The parameter server: \<open>ParameterServer.serveTrainJob\<close>\<close>

text \<open>
  The loop of \<open>serveTrainJob\<close> over the fields of the parameter server it reads and
  writes. \<open>logger.Fatal\<close> ends the process.
\<close>

datatype ps_event =
    PsInvokeTrain int
  | PsRecvEpochChan
  | PsModelSave
  | PsLogError string
  | PsGoInvokeVal
  | PsSendSchedChan int
  | PsRecvRespChan int

record ParameterServer =
  ps_parallelism :: int
  toFinish :: int
  ps_epoch :: int
  req_Epochs :: int
  ps_trace :: "ps_event list"

record ScheduleResponse =
  newParallelism :: int
  resp_err :: "err option"

record ps_env =
  ps_Save :: "err option"
  resp :: ScheduleResponse

datatype ps_end = PsFinished | PsFatal | PsStarved

definition ps_emit :: "ps_event list \<Rightarrow> ParameterServer \<Rightarrow> ParameterServer" where
  "ps_emit evs ps = ps\<lparr>ps_trace := ps_trace ps @ evs\<rparr>"

text \<open>
  The body of the loop, lines 97 to 143; \<open>True\<close> when \<open>logger.Fatal\<close> was reached.
  \<open>invokeTrainFunctions\<close> (the fan-out and the average loss it appends to the history)
  is one event.
\<close>

definition serve_epoch :: "ps_env \<Rightarrow> ParameterServer \<Rightarrow> ParameterServer \<times> bool" where
  "serve_epoch e ps =
     (let ps1 = ps_emit [PsInvokeTrain (ps_parallelism ps), PsRecvEpochChan, PsModelSave] ps;
          ps2 = (case ps_Save e of
                   Some er \<Rightarrow> ps_emit [PsLogError ''Could not update model''] ps1
                 | None \<Rightarrow> ps1);
          ps3 = ps_emit [PsGoInvokeVal, PsSendSchedChan (ps_parallelism ps2),
                         PsRecvRespChan (newParallelism (resp e))] ps2
      in case resp_err (resp e) of
           Some er \<Rightarrow> (ps3, True)
         | None \<Rightarrow>
             (ps3\<lparr>ps_parallelism := newParallelism (resp e),
                  toFinish := newParallelism (resp e)\<rparr>, False))"

text \<open>
  \<open>for ps.epoch <= ps.req.Epochs\<close>, one record of answers per iteration. The loop has
  no post statement, and neither its body nor \<open>invokeTrainFunctions\<close> and
  \<open>invokeValFunction\<close> assign \<open>ps.epoch\<close>.
\<close>

fun serveTrainJob :: "ps_env list \<Rightarrow> ParameterServer \<Rightarrow> ParameterServer \<times> ps_end" where
  "serveTrainJob [] ps =
     (if ps_epoch ps \<le> req_Epochs ps then (ps, PsStarved) else (ps, PsFinished))"
| "serveTrainJob (e # es) ps =
     (if ps_epoch ps \<le> req_Epochs ps then
        (case serve_epoch e ps of
           (ps1, True) \<Rightarrow> (ps1, PsFatal)
         | (ps1, False) \<Rightarrow> serveTrainJob es ps1)
      else (ps, PsFinished))"

text \<open>\<open>NewPS\<close>: the parameter server starts at epoch 1.\<close>

definition NewPS :: "int \<Rightarrow> int \<Rightarrow> ParameterServer" where
  "NewPS par n_epochs =
     \<lparr>ps_parallelism = par, toFinish = par, ps_epoch = 1, req_Epochs = n_epochs, ps_trace = []\<rparr>"

section \<open>Reading traces\<close>

text \<open>
  \<open>before a xs\<close> are the events of \<open>xs\<close> ahead of the first \<open>a\<close>, and \<open>after a xs\<close>
  the events from the first \<open>a\<close> on.
\<close>

definition before :: "'a \<Rightarrow> 'a list \<Rightarrow> 'a list" where
  "before a xs = takeWhile (\<lambda>x. x \<noteq> a) xs"

definition after :: "'a \<Rightarrow> 'a list \<Rightarrow> 'a list" where
  "after a xs = dropWhile (\<lambda>x. x \<noteq> a) xs"

text \<open>The events one pass of the main loop adds to the controller's trace.\<close>

definition body_events :: "epoch_env \<Rightarrow> TrainJob \<Rightarrow> event list" where
  "body_events e job = drop (length (trace job)) (trace (fst (epoch_body e job)))"

text \<open>
  \<open>startMerger\<close> and \<open>merged\<close> are unbuffered: a send on them completes only together
  with the receive of the other goroutine. \<open>rendezvous\<close> picks the operations on the
  two channels out of a trace, and \<open>in_step\<close> says that the operations of the controller
  and of the merger pair up, one by one, as far as the shorter list goes. Where they do
  not, each goroutine waits for an operation the other one is not going to do.
\<close>

definition rendezvous :: "event list \<Rightarrow> event list" where
  "rendezvous evs =
     filter (\<lambda>ev. ev = SendStartMerger \<or> ev = RecvStartMerger \<or> ev = SendMerged
                  \<or> ev = RecvMerged) evs"

fun in_step :: "event list \<Rightarrow> event list \<Rightarrow> bool" where
  "in_step [] ms = True"
| "in_step (c # cs) [] = True"
| "in_step (c # cs) (m # ms) =
     ((c = SendStartMerger \<and> m = RecvStartMerger \<or> c = RecvMerged \<and> m = SendMerged)
      \<and> in_step cs ms)"

text \<open>
  The operations a run of the controller has begun: those it completed, and the one it
  is blocked in, if any.
\<close>

definition attempted :: "TrainJob \<times> ctl \<Rightarrow> event list" where
  "attempted r = trace (fst r) @ (case snd r of Halted ev \<Rightarrow> [ev] | _ \<Rightarrow> [])"

section \<open>Sample runs\<close>

text \<open>
  A job of two epochs that starts with two functions, validates after every epoch and
  aims at an accuracy of 50; an environment in which every call succeeds, the scheduler
  answers with four functions, the merger gets to its send on \<open>merged\<close> and validation
  stays below the goal; and variations of it.
\<close>

definition sample_task :: TrainTask where
  "sample_task =
     \<lparr>Epochs = 2, Parallelism = 2, StaticParallelism = False, ValidateEvery = 1, K = - 1,
      GoalAccuracy = 50\<rparr>"

definition low_val :: val_env where
  "low_val = \<lparr>invokeValFunctions = Inr (10, 1), updateValidationMetrics = None\<rparr>"

definition high_val :: val_env where
  "high_val = \<lparr>invokeValFunctions = Inr (60, 1), updateValidationMetrics = None\<rparr>"

definition calm_epoch :: epoch_env where
  "calm_epoch =
     \<lparr>invokeTrainFunctions = None, errChan = None, updateTrainMetrics = None,
      UpdateJob_res = None, update_Parallelism = 4, IsDebugEnv = False,
      LimitParallelism = False, validation = low_val, stop_ready = False,
      pick_stop = False, merger_then = MergerSignals\<rparr>"

definition scheduler_down :: epoch_env where
  "scheduler_down = calm_epoch\<lparr>UpdateJob_res := Some (New ''scheduler unreachable'')\<rparr>"

definition stop_epoch :: epoch_env where
  "stop_epoch = calm_epoch\<lparr>stop_ready := True\<rparr>"

text \<open>An epoch in which the merger never gets to its send on \<open>merged\<close>.\<close>

definition stalled_epoch :: epoch_env where
  "stalled_epoch = calm_epoch\<lparr>merger_then := MergerHangs\<rparr>"

definition sample_env :: "epoch_env list \<Rightarrow> val_env \<Rightarrow> job_env" where
  "sample_env es v =
     \<lparr>invokeInitFunction = Inr 3, model_Build = None, epoch_envs = es, final_validation = v\<rparr>"

text \<open>
  A merger at the start of an epoch of two functions. At the first barrier function 0
  wants another round (it waits on channel 7) and function 1 is done; at the second
  barrier function 0 is done too.
\<close>

definition sample_merger :: Merger where
  "sample_merger =
     \<lparr>wgIteration = 0, wg_counter = 2, finishCh = 0,
      channels = [\<lparr>capacity = 2, is_closed = False\<rparr>], mtrace = []\<rparr>"

definition first_barrier :: barrier where
  "first_barrier =
     \<lparr>arrivals = [\<lparr>funcId = 0, respChan = Some 7\<rparr>, \<lparr>funcId = 1, respChan = None\<rparr>],
      Average_res = None, Save_res = None, finishedFuncs = 1, job_parallelism = 2\<rparr>"

definition second_barrier :: barrier where
  "second_barrier =
     \<lparr>arrivals = [\<lparr>funcId = 0, respChan = None\<rparr>],
      Average_res = None, Save_res = None, finishedFuncs = 2, job_parallelism = 2\<rparr>"

definition empty_barrier :: barrier where
  "empty_barrier =
     \<lparr>arrivals = [], Average_res = None, Save_res = None, finishedFuncs = 2,
      job_parallelism = 2\<rparr>"

text \<open>
  Epochs with a single barrier at which every function is done (K = -1), for two and
  for four functions.
\<close>

definition two_done :: epoch_in where
  "two_done =
     \<lparr>epoch_parallelism = 2,
      barriers = [\<lparr>arrivals = [\<lparr>funcId = 0, respChan = None\<rparr>, \<lparr>funcId = 1, respChan = None\<rparr>],
                   Average_res = None, Save_res = None, finishedFuncs = 2,
                   job_parallelism = 2\<rparr>]\<rparr>"

definition four_done :: epoch_in where
  "four_done =
     \<lparr>epoch_parallelism = 4,
      barriers = [\<lparr>arrivals = [\<lparr>funcId = 0, respChan = None\<rparr>, \<lparr>funcId = 1, respChan = None\<rparr>,
                               \<lparr>funcId = 2, respChan = None\<rparr>, \<lparr>funcId = 3, respChan = None\<rparr>],
                   Average_res = None, Save_res = None, finishedFuncs = 4,
                   job_parallelism = 4\<rparr>]\<rparr>"

text \<open>
  An epoch that \<open>train\<close> started with two functions, both done at the first barrier,
  in which the merger loads \<open>job.parallelism\<close> (line 417) after the controller has
  written the scheduler's answer to it (line 212): 4 in \<open>late_read\<close>, 1 in
  \<open>shrunk_read\<close>.
\<close>

definition late_read :: epoch_in where
  "late_read =
     \<lparr>epoch_parallelism = 2,
      barriers = [\<lparr>arrivals = [\<lparr>funcId = 0, respChan = None\<rparr>, \<lparr>funcId = 1, respChan = None\<rparr>],
                   Average_res = None, Save_res = None, finishedFuncs = 2,
                   job_parallelism = 4\<rparr>]\<rparr>"

definition shrunk_read :: epoch_in where
  "shrunk_read =
     \<lparr>epoch_parallelism = 2,
      barriers = [\<lparr>arrivals = [\<lparr>funcId = 0, respChan = None\<rparr>, \<lparr>funcId = 1, respChan = None\<rparr>],
                   Average_res = None, Save_res = None, finishedFuncs = 2,
                   job_parallelism = 1\<rparr>]\<rparr>"

text \<open>
  A request on the command line: the dataset is known, the function is not, the batch
  is too large and no epoch is asked for.
\<close>

definition sample_services :: services where
  "sample_services =
     \<lparr>datasets_Get = (\<lambda>name. if name = ''mnist'' then None else Some (New ''not found'')),
      MakeFissionClient = None,
      functions_Get = (\<lambda>name. Some (New ''not found''))\<rparr>"

definition sample_flags :: flags where
  "sample_flags = \<lparr>dataset = ''mnist'', epochs = 0, lr = 1 / 100, functionName = ''resnet''\<rparr>"

definition sample_request :: TrainRequest where
  "sample_request = \<lparr>BatchSize = 2000\<rparr>"

section \<open>Invariants of the main loop\<close>

text \<open>
  The number of sends on \<open>accuracyCh\<close> so far, and the error a forced stop records.
\<close>

definition sends :: "TrainJob \<Rightarrow> nat" where
  "sends job = count_list (trace job) SendAccuracyCh"

definition forced :: err where
  "forced = New ''job was force stopped''"

text \<open>
  What holds whenever the loop condition is tested: the accuracy channel is empty and has
  never been sent on, and neither a stop nor the history has been seen.
\<close>

definition loop_inv :: "TrainJob \<Rightarrow> bool" where
  "loop_inv job =
     (accuracyCh job = 0 \<and> \<not> accuracyReached job \<and> sends job = 0
      \<and> RecvStopChan \<notin> set (trace job) \<and> SaveHistory \<notin> set (trace job))"

text \<open>The state right after the stop case of the select.\<close>

definition stopped :: "TrainJob \<Rightarrow> bool" where
  "stopped job =
     (trace job \<noteq> [] \<and> last (trace job) = RecvStopChan
      \<and> RecvStopChan \<notin> set (butlast (trace job)) \<and> exitErr job = Some forced)"

text \<open>What holds when one pass, or the whole loop, ends in the given way.\<close>

definition loop_post :: "TrainJob \<Rightarrow> ctl \<Rightarrow> bool" where
  "loop_post job c =
     (case c of
        BreakMain \<Rightarrow>
          accuracyReached job \<and> sends job \<le> 1 \<and> SaveHistory \<notin> set (trace job)
          \<and> (if RecvStopChan \<in> set (trace job) then stopped job else True)
      | Stuck \<Rightarrow> False
      | _ \<Rightarrow> loop_inv job)"

text \<open>The events \<open>train\<close> can add, and those the validation and the select can add.\<close>

definition train_alphabet :: "TrainJob \<Rightarrow> event set" where
  "train_alphabet job =
     {MakeFinishCh (parallelism job), WgAdd (parallelism job), StoreFinishedFuncs 0,
      SendStartMerger, InvokeTrain, RecvErrChan, UpdateTrainMetrics,
      LogError ''error updating metrics''}"

definition check_alphabet :: "event set" where
  "check_alphabet =
     {InvokeVal, UpdateValMetrics, SendAccuracyCh, LogError ''error performing validation'',
      RecvStopChan, RecvAccuracyCh}"

section \<open>Well-formed merger states\<close>

text \<open>
  At the start of every barrier \<open>finishCh\<close> is a channel of the store that is still
  open: \<open>train\<close> makes one before it hands over \<open>errChan\<close>, and the merger makes one
  before it goes on to the next barrier.
\<close>

definition open_finishCh :: "Merger \<Rightarrow> bool" where
  "open_finishCh m = (finishCh m < length (channels m) \<and> \<not> is_closed (channels m ! finishCh m))"

text \<open>The response channels of a barrier that are not nil, in the order of arrival.\<close>

definition waiting_chans :: "barrier \<Rightarrow> nat list" where
  "waiting_chans b = map the (filter (\<lambda>ch. ch \<noteq> None) (map respChan (arrivals b)))"

text \<open>An answer of the scheduler without an error, for the parameter server.\<close>

definition ok_answer :: ps_env where
  "ok_answer = \<lparr>ps_Save = None, resp = \<lparr>newParallelism = 2, resp_err = None\<rparr>\<rparr>"

section \<open>Counting epochs\<close>

text \<open>
  How often the controller has invoked the training functions, and how often the
  parameter server has seen an epoch finish.
\<close>

definition trained :: "TrainJob \<Rightarrow> nat" where
  "trained job = count_list (trace job) InvokeTrain"

definition served :: "ParameterServer \<Rightarrow> nat" where
  "served ps = count_list (ps_trace ps) PsRecvEpochChan"

section \<open>Validation of a train request\<close>

lemma msgs_distinct:
  "batch_msg \<noteq> epochs_msg" "batch_msg \<noteq> lr_msg" "batch_msg \<noteq> dataset_msg n"
  "batch_msg \<noteq> function_msg n" "epochs_msg \<noteq> lr_msg" "epochs_msg \<noteq> dataset_msg n"
  "epochs_msg \<noteq> function_msg n" "lr_msg \<noteq> dataset_msg n" "lr_msg \<noteq> function_msg n"
  "dataset_msg n \<noteq> function_msg k"
  by (simp_all add: batch_msg_def epochs_msg_def lr_msg_def dataset_msg_def function_msg_def)

text \<open>The aggregate is the list of the messages of the failed checks, in the order of the checks.\<close>

lemma validateTrainRequest_list:
  "validateTrainRequest client g req =
     ErrorOrNil ((if batch_bad req then [batch_msg] else []) @
                 (if epochs g \<le> 0 then [epochs_msg] else []) @
                 (if lr g \<le> 0 then [lr_msg] else []) @
                 (if dataset_missing client g then [dataset_msg (dataset g)] else []) @
                 (if function_missing client g then [function_msg (functionName g)] else []))"
  by (cases "datasets_Get client (dataset g)"; cases "MakeFissionClient client";
      cases "functions_Get client (functionName g)")
     (simp_all add: validateTrainRequest_def Let_def datasetExists_def functionExists_def
        batch_bad_def dataset_missing_def function_missing_def maxBatchSize_def not_less not_le)

text \<open>
  C9. \<open>validateTrainRequest\<close> returns nil exactly when none of the five conditions
  holds (batch size outside (0, 1024], epochs not positive, learning rate not positive,
  dataset lookup failed, function lookup failed); otherwise the returned aggregate holds
  the message of every failed check, once, and no other message.
\<close>

theorem validateTrainRequest_spec:
  "(validateTrainRequest client g req = None \<longleftrightarrow>
      \<not> (batch_bad req \<or> epochs g \<le> 0 \<or> lr g \<le> 0 \<or> dataset_missing client g
          \<or> function_missing client g))
   \<and> (\<forall>es. validateTrainRequest client g req = Some es \<longrightarrow>
         (batch_msg \<in> set es \<longleftrightarrow> batch_bad req) \<and>
         (epochs_msg \<in> set es \<longleftrightarrow> epochs g \<le> 0) \<and>
         (lr_msg \<in> set es \<longleftrightarrow> lr g \<le> 0) \<and>
         (dataset_msg (dataset g) \<in> set es \<longleftrightarrow> dataset_missing client g) \<and>
         (function_msg (functionName g) \<in> set es \<longleftrightarrow> function_missing client g) \<and>
         set es \<subseteq> {batch_msg, epochs_msg, lr_msg, dataset_msg (dataset g),
                   function_msg (functionName g)} \<and>
         distinct es)"
  unfolding validateTrainRequest_list ErrorOrNil_def
  by (auto simp add: msgs_distinct msgs_distinct[symmetric])

theorem validateTrainRequest_spec_witness:
  "validateTrainRequest sample_services sample_flags sample_request
     = Some [batch_msg, epochs_msg, function_msg ''resnet'']
   \<and> batch_bad sample_request \<and> epochs sample_flags \<le> 0 \<and> \<not> lr sample_flags \<le> 0
   \<and> \<not> dataset_missing sample_services sample_flags
   \<and> function_missing sample_services sample_flags"
proof -
  have run: "validateTrainRequest sample_services sample_flags sample_request
               = Some [batch_msg, epochs_msg, function_msg ''resnet'']"
    by (simp add: validateTrainRequest_def Let_def datasetExists_def functionExists_def
          ErrorOrNil_def sample_services_def sample_flags_def sample_request_def maxBatchSize_def)
  from validateTrainRequest_spec [of sample_services sample_flags sample_request] run
  show ?thesis
    by (simp add: msgs_distinct msgs_distinct[symmetric] sample_flags_def)
qed

section \<open>Reading traces\<close>

lemma after_simps [simp]:
  "after a [] = []"
  "after a (x # xs) = (if x = a then x # xs else after a xs)"
  by (simp_all add: after_def)

lemma before_simps [simp]:
  "before a [] = []"
  "before a (x # xs) = (if x = a then [] else x # before a xs)"
  by (simp_all add: before_def)

lemma after_append: "a \<notin> set xs \<Longrightarrow> after a (xs @ ys) = after a ys"
  by (induction xs) auto

lemma after_notin: "a \<notin> set xs \<Longrightarrow> after a xs = []"
  by (induction xs) auto

lemma before_append: "a \<notin> set xs \<Longrightarrow> before a (xs @ ys) = xs @ before a ys"
  by (induction xs) auto

section \<open>Sample runs of the controller\<close>

lemmas sample_defs = sample_task_def sample_env_def calm_epoch_def scheduler_down_def stop_epoch_def
  stalled_epoch_def low_val_def high_val_def NewTrainJob_def extractTaskSettings_def

lemmas controller_defs = epoch_body_def train_def negotiate_def maybe_validate_def validate_def
  goal_check_def emit_def Let_def accuracyCh_cap_def

lemma first_epoch_calm:
  "body_events calm_epoch ((NewTrainJob sample_task)\<lparr>epoch := 1\<rparr>)
     = [MakeFinishCh 2, WgAdd 2, StoreFinishedFuncs 0, SendStartMerger, InvokeTrain,
        UpdateTrainMetrics, UpdateJob, RecvSchedulerCh 4, RecvMerged, InvokeVal,
        UpdateValMetrics]"
  by (simp add: body_events_def controller_defs sample_defs smod_int_alt_def)

lemma first_epoch_scheduler_down:
  "epoch_body scheduler_down ((NewTrainJob sample_task)\<lparr>epoch := 1\<rparr>)
     = ((NewTrainJob sample_task)
          \<lparr>epoch := 1,
           trace := [MakeFinishCh 2, WgAdd 2, StoreFinishedFuncs 0, SendStartMerger, InvokeTrain,
                     UpdateTrainMetrics, UpdateJob, LogError ''Error updating parallelism''],
           merger_at_start := False\<rparr>,
        ContinueMain)"
  by (simp add: controller_defs sample_defs)

lemma stop_run:
  "Train (sample_env [stop_epoch, calm_epoch] low_val) (NewTrainJob sample_task)
     = ((NewTrainJob sample_task)
          \<lparr>task := sample_task\<lparr>Parallelism := 4\<rparr>, epoch := 1, parallelism := 4,
           accuracyReached := True, exitErr := Some forced,
           trace := [InitModel, MakeFinishCh 2, WgAdd 2, StoreFinishedFuncs 0, SendStartMerger,
                     InvokeTrain, UpdateTrainMetrics, UpdateJob, RecvSchedulerCh 4, RecvMerged,
                     InvokeVal, UpdateValMetrics, RecvStopChan, SaveHistory, ClearTensors,
                     PoolClose, JobFinished (Some forced)]\<rparr>,
        Fallthrough)"
  by (simp add: Train_def Train_body_def init_def final_stage_def deferred_def controller_defs
        sample_defs smod_int_alt_def forced_def)

lemma late_goal_run:
  "Train (sample_env [calm_epoch, calm_epoch] high_val) (NewTrainJob sample_task)
     = ((NewTrainJob sample_task)
          \<lparr>task := sample_task\<lparr>Parallelism := 4\<rparr>, epoch := 3, parallelism := 4,
           accuracyCh := 1,
           trace := [InitModel, MakeFinishCh 2, WgAdd 2, StoreFinishedFuncs 0, SendStartMerger,
                     InvokeTrain, UpdateTrainMetrics, UpdateJob, RecvSchedulerCh 4, RecvMerged,
                     InvokeVal, UpdateValMetrics, MakeFinishCh 4, WgAdd 4, StoreFinishedFuncs 0,
                     SendStartMerger, InvokeTrain, UpdateTrainMetrics, RecvMerged, InvokeVal,
                     UpdateValMetrics, SendAccuracyCh, SaveHistory, ClearTensors, PoolClose,
                     JobFinished None]\<rparr>,
        Fallthrough)"
  by (simp add: Train_def Train_body_def init_def final_stage_def deferred_def controller_defs
        sample_defs smod_int_alt_def wrap64_def)

text \<open>
  After the failed \<open>UpdateJob\<close> of epoch 1 the controller starts epoch 2 and blocks in
  its send on \<open>startMerger\<close>: the merger is in its send on \<open>merged\<close>.
\<close>

lemma scheduler_down_run:
  "Train (sample_env [scheduler_down, calm_epoch] low_val) (NewTrainJob sample_task)
     = ((NewTrainJob sample_task)
          \<lparr>epoch := 2,
           trace := [InitModel, MakeFinishCh 2, WgAdd 2, StoreFinishedFuncs 0, SendStartMerger,
                     InvokeTrain, UpdateTrainMetrics, UpdateJob,
                     LogError ''Error updating parallelism'', MakeFinishCh 2, WgAdd 2,
                     StoreFinishedFuncs 0],
           merger_at_start := False\<rparr>,
        Halted SendStartMerger)"
  by (simp add: Train_def Train_body_def init_def final_stage_def deferred_def controller_defs
        sample_defs smod_int_alt_def wrap64_def)

text \<open>
  When the merger never gets to its send on \<open>merged\<close> the controller blocks in the
  receive of epoch 1, with the scheduler's answer already written to \<open>job.parallelism\<close>.
\<close>

lemma stalled_run:
  "Train (sample_env [stalled_epoch, calm_epoch] low_val) (NewTrainJob sample_task)
     = ((NewTrainJob sample_task)
          \<lparr>task := sample_task\<lparr>Parallelism := 4\<rparr>, epoch := 1, parallelism := 4,
           trace := [InitModel, MakeFinishCh 2, WgAdd 2, StoreFinishedFuncs 0, SendStartMerger,
                     InvokeTrain, UpdateTrainMetrics, UpdateJob, RecvSchedulerCh 4],
           merger_at_start := False\<rparr>,
        Halted RecvMerged)"
  by (simp add: Train_def Train_body_def init_def final_stage_def deferred_def controller_defs
        sample_defs smod_int_alt_def wrap64_def)

lemma calm_run:
  "Train (sample_env [calm_epoch, calm_epoch] low_val) (NewTrainJob sample_task)
     = ((NewTrainJob sample_task)
          \<lparr>task := sample_task\<lparr>Parallelism := 4\<rparr>, epoch := 3, parallelism := 4,
           trace := [InitModel, MakeFinishCh 2, WgAdd 2, StoreFinishedFuncs 0, SendStartMerger,
                     InvokeTrain, UpdateTrainMetrics, UpdateJob, RecvSchedulerCh 4, RecvMerged,
                     InvokeVal, UpdateValMetrics, MakeFinishCh 4, WgAdd 4, StoreFinishedFuncs 0,
                     SendStartMerger, InvokeTrain, UpdateTrainMetrics, RecvMerged, InvokeVal,
                     UpdateValMetrics, SaveHistory, ClearTensors, PoolClose,
                     JobFinished None]\<rparr>,
        Fallthrough)"
  by (simp add: Train_def Train_body_def init_def final_stage_def deferred_def controller_defs
        sample_defs smod_int_alt_def wrap64_def)

section \<open>The order of events within one epoch\<close>

lemma train_trace:
  "\<exists>evs. trace (fst (train e job)) = trace job @ evs \<and> set evs \<subseteq> train_alphabet job"
  by (auto simp add: train_def emit_def Let_def train_alphabet_def split: option.splits)

lemma validate_trace:
  "\<exists>evs. trace (fst (validate v job)) = trace job @ evs
      \<and> set evs \<subseteq> {InvokeVal, UpdateValMetrics, SendAccuracyCh}"
  by (auto simp add: validate_def emit_def Let_def split: option.splits sum.splits prod.splits)

lemma maybe_validate_trace:
  "\<exists>evs. trace (fst (maybe_validate e job)) = trace job @ evs \<and> set evs \<subseteq> check_alphabet"
proof -
  obtain j1 r where v: "validate (validation e) job = (j1, r)"
    by (cases "validate (validation e) job")
  from validate_trace[of "validation e" job] v obtain evs where
    "trace j1 = trace job @ evs" "set evs \<subseteq> {InvokeVal, UpdateValMetrics, SendAccuracyCh}"
    by auto
  with v show ?thesis
    by (auto simp add: maybe_validate_def emit_def check_alphabet_def
          split: call.splits option.splits)
qed

lemma goal_check_trace:
  "\<exists>evs. trace (fst (goal_check e job)) = trace job @ evs \<and> set evs \<subseteq> check_alphabet"
  by (auto simp add: goal_check_def emit_def check_alphabet_def)

lemma negotiate_trace:
  "(snd (negotiate e job) = ContinueMain
      \<and> trace (fst (negotiate e job)) = trace job @ [UpdateJob, LogError ''Error updating parallelism''])
   \<or> (snd (negotiate e job) = Fallthrough
      \<and> (trace (fst (negotiate e job)) = trace job
          \<or> trace (fst (negotiate e job))
               = trace job @ [UpdateJob, RecvSchedulerCh (update_Parallelism e)]))"
  by (auto simp add: negotiate_def emit_def Let_def split: option.splits)

lemma negotiate_end: "snd (negotiate e job) = Fallthrough \<or> snd (negotiate e job) = ContinueMain"
  using negotiate_trace[of e job] by auto

text \<open>The ways through one pass of the main loop.\<close>

lemma epoch_body_cases:
  obtains
    (panic) j1 where "train e job = (j1, Panics)" "epoch_body e job = (j1, Crash)"
  | (no_merger) j1 where "train e job = (j1, BlocksForever)"
      "epoch_body e job = (j1, Halted SendStartMerger)"
  | (train_error) j1 er where "train e job = (j1, Returns (Some er))"
      "epoch_body e job
         = ((emit [LogError ''Error training model''] j1)\<lparr>exitErr := Some er\<rparr>, ReturnTrain)"
  | (continue) j1 j2 where "train e job = (j1, Returns None)"
      "negotiate e j1 = (j2, ContinueMain)"
      "epoch_body e job
         = (j2\<lparr>merger_at_start := (merger_then e = MergerFailsLate)\<rparr>, ContinueMain)"
  | (no_merged) j1 j2 where "train e job = (j1, Returns None)"
      "negotiate e j1 = (j2, Fallthrough)" "merger_then e \<noteq> MergerSignals"
      "epoch_body e job = (j2, Halted RecvMerged)"
  | (validation_ends) j1 j2 j3 c3 where "train e job = (j1, Returns None)"
      "negotiate e j1 = (j2, Fallthrough)" "merger_then e = MergerSignals"
      "maybe_validate e ((emit [RecvMerged] j2)\<lparr>merger_at_start := True\<rparr>) = (j3, c3)"
      "c3 \<noteq> Fallthrough" "epoch_body e job = (j3, c3)"
  | (select) j1 j2 j3 where "train e job = (j1, Returns None)"
      "negotiate e j1 = (j2, Fallthrough)" "merger_then e = MergerSignals"
      "maybe_validate e ((emit [RecvMerged] j2)\<lparr>merger_at_start := True\<rparr>) = (j3, Fallthrough)"
      "epoch_body e job = goal_check e j3"
proof -
  obtain j1 r where t: "train e job = (j1, r)" by (cases "train e job")
  show thesis
  proof (cases r)
    case Panics
    with t show thesis by (intro panic[of j1]) (simp_all add: epoch_body_def)
  next
    case BlocksForever
    with t show thesis by (intro no_merger[of j1]) (simp_all add: epoch_body_def)
  next
    case (Returns eo)
    show thesis
    proof (cases eo)
      case (Some er)
      with Returns t show thesis by (intro train_error[of j1 er]) (simp_all add: epoch_body_def)
    next
      case None
      obtain j2 c2 where n: "negotiate e j1 = (j2, c2)" by (cases "negotiate e j1")
      from negotiate_end[of e j1] n have "c2 = Fallthrough \<or> c2 = ContinueMain" by simp
      then show thesis
      proof
        assume c2: "c2 = ContinueMain"
        with None Returns t n show thesis
          by (intro continue[of j1 j2]) (simp_all add: epoch_body_def)
      next
        assume c2: "c2 = Fallthrough"
        show thesis
        proof (cases "merger_then e = MergerSignals")
          case False
          with c2 None Returns t n show thesis
            by (intro no_merged[of j1 j2]) (cases "merger_then e"; simp add: epoch_body_def)+
        next
          case True
          obtain j3 c3 where
            m: "maybe_validate e ((emit [RecvMerged] j2)\<lparr>merger_at_start := True\<rparr>) = (j3, c3)"
            by (cases "maybe_validate e ((emit [RecvMerged] j2)\<lparr>merger_at_start := True\<rparr>)")
          show thesis
          proof (cases "c3 = Fallthrough")
            case False
            with True c2 None Returns t n m show thesis
              by (intro validation_ends[of j1 j2 j3 c3]) (cases c3; simp add: epoch_body_def)+
          next
            case c3: True
            with True c2 None Returns t n m show thesis
              by (intro select[of j1 j2 j3]) (simp_all add: epoch_body_def)
          qed
        qed
      qed
    qed
  qed
qed

text \<open>The shapes of the events of one pass of the main loop.\<close>

lemma body_events_shape:
  "\<exists>tevs. set tevs \<subseteq> train_alphabet job \<and>
     (body_events e job = tevs
      \<or> body_events e job = tevs @ [LogError ''Error training model'']
      \<or> body_events e job = tevs @ [UpdateJob, LogError ''Error updating parallelism'']
      \<or> body_events e job = tevs @ [UpdateJob, RecvSchedulerCh (update_Parallelism e)]
      \<or> (\<exists>cevs. set cevs \<subseteq> check_alphabet \<and>
            (body_events e job = tevs @ RecvMerged # cevs
             \<or> body_events e job
                 = tevs @ [UpdateJob, RecvSchedulerCh (update_Parallelism e)] @ RecvMerged # cevs)))"
proof -
  from train_trace[of e job] obtain tevs where
    tevs: "trace (fst (train e job)) = trace job @ tevs" "set tevs \<subseteq> train_alphabet job"
    by auto
  have neg: "\<And>j1 j2. train e job = (j1, Returns None) \<Longrightarrow> negotiate e j1 = (j2, Fallthrough) \<Longrightarrow>
      trace j2 = trace job @ tevs
      \<or> trace j2 = trace job @ tevs @ [UpdateJob, RecvSchedulerCh (update_Parallelism e)]"
  proof -
    fix j1 j2 assume "train e job = (j1, Returns None)" "negotiate e j1 = (j2, Fallthrough)"
    with negotiate_trace[of e j1] tevs(1) show
      "trace j2 = trace job @ tevs
       \<or> trace j2 = trace job @ tevs @ [UpdateJob, RecvSchedulerCh (update_Parallelism e)]"
      by auto
  qed
  have "body_events e job = tevs
      \<or> body_events e job = tevs @ [LogError ''Error training model'']
      \<or> body_events e job = tevs @ [UpdateJob, LogError ''Error updating parallelism'']
      \<or> body_events e job = tevs @ [UpdateJob, RecvSchedulerCh (update_Parallelism e)]
      \<or> (\<exists>cevs. set cevs \<subseteq> check_alphabet \<and>
            (body_events e job = tevs @ RecvMerged # cevs
             \<or> body_events e job
                 = tevs @ [UpdateJob, RecvSchedulerCh (update_Parallelism e)] @ RecvMerged # cevs))"
  proof (cases rule: epoch_body_cases[of e job])
    case (panic j1)
    with tevs(1) show ?thesis by (simp add: body_events_def)
  next
    case (no_merger j1)
    with tevs(1) show ?thesis by (simp add: body_events_def)
  next
    case (train_error j1 er)
    with tevs(1) show ?thesis by (simp add: body_events_def emit_def)
  next
    case (continue j1 j2)
    with negotiate_trace[of e j1] tevs(1) show ?thesis by (simp add: body_events_def)
  next
    case (no_merged j1 j2)
    with neg[of j1 j2] show ?thesis by (auto simp add: body_events_def)
  next
    case (validation_ends j1 j2 j3 c3)
    from maybe_validate_trace[of e "(emit [RecvMerged] j2)\<lparr>merger_at_start := True\<rparr>"]
      validation_ends(4)
    obtain vevs where "trace j3 = trace j2 @ RecvMerged # vevs" "set vevs \<subseteq> check_alphabet"
      by (auto simp add: emit_def)
    with neg[OF validation_ends(1,2)] validation_ends(6) show ?thesis
      by (auto simp add: body_events_def)
  next
    case (select j1 j2 j3)
    from maybe_validate_trace[of e "(emit [RecvMerged] j2)\<lparr>merger_at_start := True\<rparr>"] select(4)
    obtain vevs where v: "trace j3 = trace j2 @ RecvMerged # vevs" "set vevs \<subseteq> check_alphabet"
      by (auto simp add: emit_def)
    from goal_check_trace[of e j3] obtain gevs where
      g: "trace (fst (goal_check e j3)) = trace j3 @ gevs" "set gevs \<subseteq> check_alphabet" by auto
    from v g have c: "set (vevs @ gevs) \<subseteq> check_alphabet"
      "trace (fst (goal_check e j3)) = trace j2 @ RecvMerged # (vevs @ gevs)" by simp_all
    from neg[OF select(1,2)] c(2) select(5) have
      "body_events e job = tevs @ RecvMerged # (vevs @ gevs)
       \<or> body_events e job
            = tevs @ [UpdateJob, RecvSchedulerCh (update_Parallelism e)] @ RecvMerged # (vevs @ gevs)"
      by (auto simp add: body_events_def)
    with c(1) show ?thesis by blast
  qed
  with tevs(2) show ?thesis by blast
qed

lemma notin_alphabets:
  "set tevs \<subseteq> train_alphabet job \<Longrightarrow>
     UpdateJob \<notin> set tevs \<and> RecvMerged \<notin> set tevs \<and> RecvSchedulerCh n \<notin> set tevs"
  "set cevs \<subseteq> check_alphabet \<Longrightarrow>
     UpdateJob \<notin> set cevs \<and> RecvMerged \<notin> set cevs \<and> RecvSchedulerCh n \<notin> set cevs"
  by (auto simp add: train_alphabet_def check_alphabet_def)

text \<open>
  The order in which the code has the two: in every pass of the main loop the scheduler
  is asked before the merged signal is received, never after. No \<open>UpdateJob\<close> and no
  receive on \<open>schedulerCh\<close> follows the receive on \<open>merged\<close>, and in a pass that has
  both, the request, the scheduler's answer and the merged signal come in this order,
  one right after the other.
\<close>

lemma negotiation_precedes_merged:
  "UpdateJob \<notin> set (after RecvMerged (body_events e job))
   \<and> (\<forall>n. RecvSchedulerCh n \<notin> set (after RecvMerged (body_events e job)))
   \<and> (UpdateJob \<in> set (body_events e job) \<and> RecvMerged \<in> set (body_events e job)
        \<longrightarrow> take 3 (after UpdateJob (body_events e job))
              = [UpdateJob, RecvSchedulerCh (update_Parallelism e), RecvMerged])"
proof -
  from body_events_shape[of job e] obtain tevs where
    t: "set tevs \<subseteq> train_alphabet job" and
    shape: "body_events e job = tevs
      \<or> body_events e job = tevs @ [LogError ''Error training model'']
      \<or> body_events e job = tevs @ [UpdateJob, LogError ''Error updating parallelism'']
      \<or> body_events e job = tevs @ [UpdateJob, RecvSchedulerCh (update_Parallelism e)]
      \<or> (\<exists>cevs. set cevs \<subseteq> check_alphabet \<and>
            (body_events e job = tevs @ RecvMerged # cevs
             \<or> body_events e job
                 = tevs @ [UpdateJob, RecvSchedulerCh (update_Parallelism e)] @ RecvMerged # cevs))"
    by blast
  note nt = notin_alphabets(1)[OF t]
  from shape show ?thesis
  proof (elim disjE exE conjE)
    assume "body_events e job = tevs"
    with nt show ?thesis by (simp add: after_notin)
  next
    assume "body_events e job = tevs @ [LogError ''Error training model'']"
    with nt show ?thesis by (simp add: after_append)
  next
    assume "body_events e job = tevs @ [UpdateJob, LogError ''Error updating parallelism'']"
    with nt show ?thesis by (simp add: after_append)
  next
    assume "body_events e job = tevs @ [UpdateJob, RecvSchedulerCh (update_Parallelism e)]"
    with nt show ?thesis by (simp add: after_append)
  next
    fix cevs assume c: "set cevs \<subseteq> check_alphabet" and "body_events e job = tevs @ RecvMerged # cevs"
    with nt notin_alphabets(2)[OF c] show ?thesis by (simp add: after_append)
  next
    fix cevs assume c: "set cevs \<subseteq> check_alphabet"
      and "body_events e job = tevs @ [UpdateJob, RecvSchedulerCh (update_Parallelism e)] @ RecvMerged # cevs"
    with nt notin_alphabets(2)[OF c] show ?thesis by (simp add: after_append)
  qed
qed

text \<open>
  In the first epoch of the sample job the controller has asked the scheduler before the
  first receive on \<open>merged\<close>, and has received nothing on \<open>merged\<close> before it asks.
\<close>

lemma first_epoch_order:
  "UpdateJob \<in> set (before RecvMerged
       (body_events calm_epoch ((NewTrainJob sample_task)\<lparr>epoch := 1\<rparr>)))
   \<and> RecvMerged \<notin> set (before UpdateJob
       (body_events calm_epoch ((NewTrainJob sample_task)\<lparr>epoch := 1\<rparr>)))
   \<and> take 3 (after UpdateJob (body_events calm_epoch ((NewTrainJob sample_task)\<lparr>epoch := 1\<rparr>)))
       = [UpdateJob, RecvSchedulerCh 4, RecvMerged]"
  by (simp add: first_epoch_calm)

text \<open>
  When \<open>UpdateJob\<close> fails the pass ends with \<open>continue\<close>: the error is logged, the
  parallelism stays, and nothing else of the pass is run.
\<close>

lemma update_failure_continues:
  assumes "train e job = (job1, Returns None)" "\<not> static job1" "epoch job1 < Epochs (task job1)"
    "UpdateJob_res e = Some er"
  shows "epoch_body e job
           = ((emit [UpdateJob, LogError ''Error updating parallelism''] job1)
                \<lparr>merger_at_start := (merger_then e = MergerFailsLate)\<rparr>,
              ContinueMain)"
  using assms by (simp add: epoch_body_def negotiate_def)

text \<open>
  The operations of the merger on \<open>startMerger\<close> and \<open>merged\<close> over two epochs in
  which every function is done at the first barrier, those of the controller in the
  calm run, and those the controller has begun in the run whose first \<open>UpdateJob\<close>
  fails.
\<close>

lemmas merger_defs = merge_barrier_def arm_def memit_def Let_def remaining_def wrap64_def
  NewMerger_def two_done_def four_done_def

lemma merger_two_epochs:
  "rendezvous (mtrace (fst (mergeModel [two_done, two_done] NewMerger)))
     = [RecvStartMerger, SendMerged, RecvStartMerger, SendMerged]"
  "rendezvous (mtrace (fst (mergeModel [two_done, four_done] NewMerger)))
     = [RecvStartMerger, SendMerged, RecvStartMerger, SendMerged]"
  by (simp_all add: merger_defs rendezvous_def)

lemma controller_rendezvous:
  "rendezvous (trace (fst (Train (sample_env [calm_epoch, calm_epoch] low_val)
                                    (NewTrainJob sample_task))))
     = [SendStartMerger, RecvMerged, SendStartMerger, RecvMerged]"
  "rendezvous (attempted (Train (sample_env [scheduler_down, calm_epoch] low_val)
                                  (NewTrainJob sample_task)))
     = [SendStartMerger, SendStartMerger]"
  by (simp_all add: calm_run scheduler_down_run rendezvous_def attempted_def)

text \<open>In the calm run the controller and the merger pair up.\<close>

lemma calm_run_in_step:
  "in_step (rendezvous (trace (fst (Train (sample_env [calm_epoch, calm_epoch] low_val)
                                          (NewTrainJob sample_task)))))
           (rendezvous (mtrace (fst (mergeModel [two_done, four_done] NewMerger))))"
  by (simp add: controller_rendezvous merger_two_epochs del: mergeModel.simps)

text \<open>
  C1 at the failing input: the first epoch of the sample job, with the scheduler
  unreachable. The job does not abort and keeps its parallelism of 2, but the pass ends
  without the receive on \<open>merged\<close>, without the validation that is due after epoch 1
  and without the select on \<open>stopChan\<close> and \<open>accuracyCh\<close>. The controller goes on to
  send on \<open>startMerger\<close> for epoch 2 while the merger is sending on \<open>merged\<close> for
  epoch 1: the two are out of step, and the controller is blocked in that send.
\<close>

theorem update_failure_skips_rest_of_epoch:
  "snd (epoch_body scheduler_down ((NewTrainJob sample_task)\<lparr>epoch := 1\<rparr>)) = ContinueMain
   \<and> parallelism (fst (epoch_body scheduler_down ((NewTrainJob sample_task)\<lparr>epoch := 1\<rparr>))) = 2
   \<and> body_events scheduler_down ((NewTrainJob sample_task)\<lparr>epoch := 1\<rparr>)
       = [MakeFinishCh 2, WgAdd 2, StoreFinishedFuncs 0, SendStartMerger, InvokeTrain,
          UpdateTrainMetrics, UpdateJob, LogError ''Error updating parallelism'']
   \<and> RecvMerged \<notin> set (body_events scheduler_down ((NewTrainJob sample_task)\<lparr>epoch := 1\<rparr>))
   \<and> InvokeVal \<notin> set (body_events scheduler_down ((NewTrainJob sample_task)\<lparr>epoch := 1\<rparr>))
   \<and> \<not> in_step
         (rendezvous (attempted (Train (sample_env [scheduler_down, calm_epoch] low_val)
                                       (NewTrainJob sample_task))))
         (rendezvous (mtrace (fst (mergeModel [two_done, two_done] NewMerger))))
   \<and> snd (Train (sample_env [scheduler_down, calm_epoch] low_val) (NewTrainJob sample_task))
       = Halted SendStartMerger"
proof -
  have new: "trace ((NewTrainJob sample_task)\<lparr>epoch := 1\<rparr>) = []"
    "parallelism (NewTrainJob sample_task) = 2"
    by (simp_all add: NewTrainJob_def extractTaskSettings_def sample_task_def)
  have "\<not> in_step
         (rendezvous (attempted (Train (sample_env [scheduler_down, calm_epoch] low_val)
                                       (NewTrainJob sample_task))))
         (rendezvous (mtrace (fst (mergeModel [two_done, two_done] NewMerger))))"
    by (simp add: controller_rendezvous merger_two_epochs del: mergeModel.simps)
  moreover have "snd (Train (sample_env [scheduler_down, calm_epoch] low_val)
                        (NewTrainJob sample_task)) = Halted SendStartMerger"
    by (simp add: scheduler_down_run)
  ultimately show ?thesis
    by (simp add: body_events_def first_epoch_scheduler_down new del: mergeModel.simps)
qed

text \<open>
  C2 at the failing input: the first epoch of the sample job, which \<open>train\<close> starts
  with two functions and in which the scheduler answers 4. The controller asks the
  scheduler and writes the answer to \<open>job.parallelism\<close> (line 212) before it receives
  on \<open>merged\<close> (line 219), not after it: the merging of the epoch is not over at the
  time of the write, and the merger loads \<open>job.parallelism\<close> (line 417) to tell whether
  the epoch is over. With both functions done and the value 4 it counts two functions
  remaining, adds them to the wait group and waits for functions that were never
  started: it sends nothing on \<open>merged\<close>, and the controller is blocked in its
  receive. With the value 1 the counter of the wait group would become negative and
  \<open>wgIteration.Add\<close> panics.
\<close>

theorem parallelism_written_before_merged:
  "UpdateJob \<in> set (before RecvMerged
       (body_events calm_epoch ((NewTrainJob sample_task)\<lparr>epoch := 1\<rparr>)))
   \<and> RecvMerged \<notin> set (before UpdateJob
       (body_events calm_epoch ((NewTrainJob sample_task)\<lparr>epoch := 1\<rparr>)))
   \<and> parallelism (fst (train calm_epoch ((NewTrainJob sample_task)\<lparr>epoch := 1\<rparr>))) = 2
   \<and> parallelism (fst (negotiate calm_epoch
        (fst (train calm_epoch ((NewTrainJob sample_task)\<lparr>epoch := 1\<rparr>))))) = 4
   \<and> RecvMerged \<notin> set (trace (fst (negotiate calm_epoch
        (fst (train calm_epoch ((NewTrainJob sample_task)\<lparr>epoch := 1\<rparr>))))))
   \<and> epoch_parallelism late_read = 2
   \<and> map finishedFuncs (barriers late_read) = [2]
   \<and> map job_parallelism (barriers late_read) = [4]
   \<and> snd (merge_epoch (barriers late_read) (arm late_read NewMerger)) = AwaitingFunctions
   \<and> wg_counter (fst (merge_epoch (barriers late_read) (arm late_read NewMerger))) = 2
   \<and> SendMerged \<notin> set (mtrace (fst (merge_epoch (barriers late_read) (arm late_read NewMerger))))
   \<and> snd (Train (sample_env [stalled_epoch, calm_epoch] low_val) (NewTrainJob sample_task))
       = Halted RecvMerged
   \<and> parallelism (fst (Train (sample_env [stalled_epoch, calm_epoch] low_val)
                              (NewTrainJob sample_task))) = 4
   \<and> JobFinished None \<notin> set (trace (fst (Train (sample_env [stalled_epoch, calm_epoch] low_val)
                                                  (NewTrainJob sample_task))))
   \<and> map job_parallelism (barriers shrunk_read) = [1]
   \<and> snd (merge_epoch (barriers shrunk_read) (arm shrunk_read NewMerger)) = MergerCrash"
proof -
  have order: "UpdateJob \<in> set (before RecvMerged
       (body_events calm_epoch ((NewTrainJob sample_task)\<lparr>epoch := 1\<rparr>)))"
    "RecvMerged \<notin> set (before UpdateJob
       (body_events calm_epoch ((NewTrainJob sample_task)\<lparr>epoch := 1\<rparr>)))"
    by (simp_all add: first_epoch_calm)
  have wr: "parallelism (fst (train calm_epoch ((NewTrainJob sample_task)\<lparr>epoch := 1\<rparr>))) = 2"
    "parallelism (fst (negotiate calm_epoch
        (fst (train calm_epoch ((NewTrainJob sample_task)\<lparr>epoch := 1\<rparr>))))) = 4"
    "RecvMerged \<notin> set (trace (fst (negotiate calm_epoch
        (fst (train calm_epoch ((NewTrainJob sample_task)\<lparr>epoch := 1\<rparr>))))))"
    by (simp_all add: controller_defs sample_defs)
  have late: "epoch_parallelism late_read = 2"
    "map finishedFuncs (barriers late_read) = [2]"
    "map job_parallelism (barriers late_read) = [4]"
    "snd (merge_epoch (barriers late_read) (arm late_read NewMerger)) = AwaitingFunctions"
    "wg_counter (fst (merge_epoch (barriers late_read) (arm late_read NewMerger))) = 2"
    "SendMerged \<notin> set (mtrace (fst (merge_epoch (barriers late_read) (arm late_read NewMerger))))"
    by (simp_all add: merger_defs late_read_def)
  have shrunk: "map job_parallelism (barriers shrunk_read) = [1]"
    "snd (merge_epoch (barriers shrunk_read) (arm shrunk_read NewMerger)) = MergerCrash"
    by (simp_all add: merger_defs shrunk_read_def)
  have blocked: "snd (Train (sample_env [stalled_epoch, calm_epoch] low_val) (NewTrainJob sample_task))
       = Halted RecvMerged"
    "parallelism (fst (Train (sample_env [stalled_epoch, calm_epoch] low_val)
                              (NewTrainJob sample_task))) = 4"
    "JobFinished None \<notin> set (trace (fst (Train (sample_env [stalled_epoch, calm_epoch] low_val)
                                                  (NewTrainJob sample_task))))"
    by (simp_all add: stalled_run)
  from order wr late shrunk blocked show ?thesis by (simp del: merge_epoch.simps)
qed

section \<open>Invariants of the main loop\<close>

lemma validate_inv:
  assumes "loop_inv job" "validate v job = (job', r)"
  shows "r \<noteq> BlocksForever \<and> r \<noteq> Panics \<and> \<not> accuracyReached job' \<and> sends job' = accuracyCh job'
     \<and> accuracyCh job' \<le> 1 \<and> RecvStopChan \<notin> set (trace job') \<and> SaveHistory \<notin> set (trace job')
     \<and> exitErr job' = exitErr job"
  using assms
  by (auto simp add: validate_def loop_inv_def sends_def emit_def Let_def accuracyCh_cap_def
        split: sum.splits option.splits prod.splits if_splits)

lemma train_inv:
  assumes "loop_inv job" "train e job = (job', r)"
  shows "loop_inv job' \<and> exitErr job' = exitErr job"
  using assms
  by (auto simp add: train_def loop_inv_def sends_def emit_def Let_def
        split: option.splits if_splits)

lemma negotiate_inv:
  assumes "loop_inv job" "negotiate e job = (job', c)"
  shows "(c = Fallthrough \<or> c = ContinueMain) \<and> loop_inv job' \<and> exitErr job' = exitErr job"
  using assms
  by (auto simp add: negotiate_def loop_inv_def sends_def emit_def Let_def
        split: option.splits if_splits)

lemma maybe_validate_inv:
  assumes "loop_inv job" "maybe_validate e job = (job', c)"
  shows "c = Fallthrough \<and> \<not> accuracyReached job' \<and> sends job' = accuracyCh job'
     \<and> accuracyCh job' \<le> 1 \<and> RecvStopChan \<notin> set (trace job') \<and> SaveHistory \<notin> set (trace job')
     \<and> exitErr job' = exitErr job"
proof (cases "validateEvery job \<noteq> 0 \<and> epoch job smod validateEvery job = 0
          \<and> epoch job \<noteq> Epochs (task job)")
  case True
  obtain j1 r where v: "validate (validation e) job = (j1, r)" by (cases "validate (validation e) job")
  from validate_inv[OF assms(1) v] v assms(2) True show ?thesis
    by (auto simp add: maybe_validate_def emit_def sends_def split: call.splits option.splits)
next
  case False
  with assms show ?thesis by (auto simp add: maybe_validate_def loop_inv_def)
qed

lemma goal_check_post:
  assumes "\<not> accuracyReached job" "sends job = accuracyCh job" "accuracyCh job \<le> 1"
    "RecvStopChan \<notin> set (trace job)" "SaveHistory \<notin> set (trace job)"
    "goal_check e job = (job', c)"
  shows "loop_post job' c"
  using assms
  by (auto simp add: goal_check_def loop_post_def loop_inv_def stopped_def forced_def sends_def emit_def
        split: if_splits)

lemma loop_inv_merger [simp]: "loop_inv (job\<lparr>merger_at_start := b\<rparr>) = loop_inv job"
  by (simp add: loop_inv_def sends_def)

lemma emit_RecvMerged_inv: "loop_inv job \<Longrightarrow> loop_inv (emit [RecvMerged] job)"
  by (simp add: loop_inv_def emit_def sends_def)

lemma epoch_body_post:
  assumes "loop_inv job" "epoch_body e job = (job', c)"
  shows "loop_post job' c"
proof (cases rule: epoch_body_cases[of e job])
  case (panic j1)
  with train_inv[OF assms(1) panic(1)] assms(2) show ?thesis by (auto simp add: loop_post_def)
next
  case (no_merger j1)
  with train_inv[OF assms(1) no_merger(1)] assms(2) show ?thesis by (auto simp add: loop_post_def)
next
  case (train_error j1 er)
  with train_inv[OF assms(1) train_error(1)] assms(2) show ?thesis
    by (auto simp add: loop_post_def loop_inv_def emit_def sends_def)
next
  case (continue j1 j2)
  from train_inv[OF assms(1) continue(1)] have "loop_inv j1" by simp
  from negotiate_inv[OF this continue(2)] continue(3) assms(2) show ?thesis
    by (auto simp add: loop_post_def)
next
  case (no_merged j1 j2)
  from train_inv[OF assms(1) no_merged(1)] have "loop_inv j1" by simp
  from negotiate_inv[OF this no_merged(2)] no_merged(4) assms(2) show ?thesis
    by (auto simp add: loop_post_def)
next
  case (validation_ends j1 j2 j3 c3)
  from train_inv[OF assms(1) validation_ends(1)] have "loop_inv j1" by simp
  from negotiate_inv[OF this validation_ends(2)]
  have "loop_inv ((emit [RecvMerged] j2)\<lparr>merger_at_start := True\<rparr>)"
    by (simp add: emit_RecvMerged_inv)
  from maybe_validate_inv[OF this validation_ends(4)] validation_ends(5) show ?thesis by simp
next
  case (select j1 j2 j3)
  from train_inv[OF assms(1) select(1)] have "loop_inv j1" by simp
  from negotiate_inv[OF this select(2)]
  have "loop_inv ((emit [RecvMerged] j2)\<lparr>merger_at_start := True\<rparr>)"
    by (simp add: emit_RecvMerged_inv)
  note mi = maybe_validate_inv[OF this select(4)]
  from select(5) assms(2) have g: "goal_check e j3 = (job', c)" by simp
  from mi g show ?thesis by (intro goal_check_post[where job=j3 and e=e]) auto
qed

lemma loop_inv_epoch: "loop_inv job \<Longrightarrow> loop_inv (job\<lparr>epoch := n\<rparr>)"
  by (simp add: loop_inv_def sends_def)

lemma main_loop_post:
  "loop_inv job \<Longrightarrow> main_loop es job = (job', c) \<Longrightarrow> loop_post job' c \<and> c \<noteq> ContinueMain"
proof (induction es arbitrary: job)
  case Nil
  then show ?case by (auto simp add: loop_post_def loop_inv_def split: if_splits)
next
  case (Cons e es)
  show ?case
  proof (cases "epoch job \<le> Epochs (task job)")
    case False
    with Cons.prems show ?thesis by (auto simp add: loop_post_def)
  next
    case True
    obtain j1 c1 where b: "epoch_body e job = (j1, c1)" by (cases "epoch_body e job")
    note bp = epoch_body_post[OF Cons.prems(1) b]
    show ?thesis
    proof (cases "c1 = Fallthrough \<or> c1 = ContinueMain")
      case True
      with bp have "loop_inv (j1\<lparr>epoch := wrap64 (epoch j1 + 1)\<rparr>)"
        by (auto simp add: loop_post_def intro: loop_inv_epoch)
      moreover from True b \<open>epoch job \<le> Epochs (task job)\<close> Cons.prems(2)
      have "main_loop es (j1\<lparr>epoch := wrap64 (epoch j1 + 1)\<rparr>) = (job', c)" by auto
      ultimately show ?thesis by (rule Cons.IH)
    next
      case False
      with b \<open>epoch job \<le> Epochs (task job)\<close> Cons.prems(2) have "job' = j1" "c = c1"
        by (cases c1; simp)+
      with bp False show ?thesis by simp
    qed
  qed
qed

lemma new_job_inv: "loop_inv ((emit [InitModel] (NewTrainJob t))\<lparr>epoch := 1\<rparr>)"
  by (simp add: loop_inv_def sends_def emit_def NewTrainJob_def extractTaskSettings_def)

lemma final_stage_quiet:
  assumes "loop_inv job" "final_stage v job = (job', c)"
  shows "c = Fallthrough \<and> sends job' \<le> 1 \<and> RecvStopChan \<notin> set (trace job')
         \<and> \<not> accuracyReached job' \<and> exitErr job' = exitErr job"
proof -
  obtain j1 r where v: "validate v job = (j1, r)" by (cases "validate v job")
  from assms(1) have "\<not> accuracyReached job" by (simp add: loop_inv_def)
  with validate_inv[OF assms(1) v] v assms(2) show ?thesis
    by (auto simp add: final_stage_def emit_def sends_def split: call.splits option.splits)
qed

lemma final_stage_reached:
  "accuracyReached job \<Longrightarrow> final_stage v job = (emit [SaveHistory] job, Fallthrough)"
  by (simp add: final_stage_def)

lemma loop_post_cases:
  assumes "loop_post job c"
  shows "(c = BreakMain \<and> accuracyReached job) \<or> (c \<noteq> BreakMain \<and> c \<noteq> Stuck \<and> loop_inv job)"
  using assms by (cases c) (simp_all add: loop_post_def)

lemma final_stage_not_stuck:
  assumes "loop_inv job" "main_loop es job = (job1, c)"
  shows "snd (final_stage v job1) \<noteq> Stuck"
proof -
  from main_loop_post[OF assms] have "loop_post job1 c" by simp
  from loop_post_cases[OF this] show ?thesis
  proof
    assume "c = BreakMain \<and> accuracyReached job1"
    then show ?thesis by (simp add: final_stage_reached)
  next
    assume "c \<noteq> BreakMain \<and> c \<noteq> Stuck \<and> loop_inv job1"
    then have "loop_inv job1" by simp
    from final_stage_quiet[OF this, of v "fst (final_stage v job1)" "snd (final_stage v job1)"]
    show ?thesis by simp
  qed
qed

text \<open>How the body of \<open>Train\<close> ends for a new job.\<close>

lemma Train_body_post:
  assumes "Train_body env (NewTrainJob t) = (job1, c)"
  shows "c \<noteq> Stuck \<and> c \<noteq> BreakMain \<and> c \<noteq> ContinueMain \<and> sends job1 \<le> 1
     \<and> (RecvStopChan \<in> set (trace job1) \<longrightarrow>
          c = Fallthrough \<and> accuracyReached job1 \<and> exitErr job1 = Some forced
          \<and> (\<exists>pre. trace job1 = pre @ [RecvStopChan, SaveHistory] \<and> RecvStopChan \<notin> set pre))"
proof (cases "init env")
  case (Some er)
  with assms show ?thesis
    by (auto simp add: Train_body_def emit_def sends_def NewTrainJob_def extractTaskSettings_def)
next
  case None
  let ?j0 = "(emit [InitModel] (NewTrainJob t))\<lparr>epoch := 1\<rparr>"
  obtain j2 c2 where l: "main_loop (epoch_envs env) ?j0 = (j2, c2)"
    by (cases "main_loop (epoch_envs env) ?j0")
  from main_loop_post[OF new_job_inv l] have p: "loop_post j2 c2" and nc: "c2 \<noteq> ContinueMain"
    by simp_all
  from loop_post_cases[OF p] show ?thesis
  proof
    assume b: "c2 = BreakMain \<and> accuracyReached j2"
    with None l assms have r: "job1 = emit [SaveHistory] j2" "c = Fallthrough"
      by (simp_all add: Train_body_def Let_def final_stage_reached)
    from b p have s: "sends j2 \<le> 1" "SaveHistory \<notin> set (trace j2)"
      "RecvStopChan \<in> set (trace j2) \<Longrightarrow> stopped j2"
      by (simp_all add: loop_post_def)
    have "RecvStopChan \<in> set (trace j2) \<Longrightarrow>
            \<exists>pre. trace j2 = pre @ [RecvStopChan] \<and> RecvStopChan \<notin> set pre \<and> exitErr j2 = Some forced"
    proof -
      assume "RecvStopChan \<in> set (trace j2)"
      from s(3)[OF this] have "trace j2 = butlast (trace j2) @ [RecvStopChan]"
        "RecvStopChan \<notin> set (butlast (trace j2))" "exitErr j2 = Some forced"
        by (auto simp add: stopped_def dest: append_butlast_last_id)
      then show ?thesis by blast
    qed
    with r b s(1) show ?thesis by (auto simp add: emit_def sends_def)
  next
    assume q: "c2 \<noteq> BreakMain \<and> c2 \<noteq> Stuck \<and> loop_inv j2"
    then have i2: "loop_inv j2" by simp
    show ?thesis
    proof (cases "c2 = Fallthrough")
      case True
      with None l assms have "final_stage (final_validation env) j2 = (job1, c)"
        by (simp add: Train_body_def Let_def)
      from final_stage_quiet[OF i2 this] show ?thesis by simp
    next
      case False
      with q nc None l assms have "job1 = j2" "c = c2"
        by (cases c2; simp add: Train_body_def Let_def)+
      with q nc False i2 show ?thesis by (simp add: loop_inv_def)
    qed
  qed
qed

lemma Train_unfold:
  "Train env job = (job', c) \<Longrightarrow>
     \<exists>job1. Train_body env job = (job1, c)
         \<and> job' = (if c = Stuck \<or> c = Starved \<or> (\<exists>ev. c = Halted ev) then job1
                   else deferred job1)"
  by (cases "Train_body env job"; cases "snd (Train_body env job)")
     (auto simp add: Train_def split: ctl.splits)

text \<open>The tail of the trace of a job that saw a forced stop.\<close>

lemma stop_tail:
  assumes "Train env (NewTrainJob t) = (job', c)" "RecvStopChan \<in> set (trace job')"
  shows "c = Fallthrough \<and> accuracyReached job' \<and> exitErr job' = Some forced
     \<and> after RecvStopChan (trace job')
         = [RecvStopChan, SaveHistory, ClearTensors, PoolClose, JobFinished (Some forced)]"
proof -
  from Train_unfold[OF assms(1)] obtain job1 where
    b: "Train_body env (NewTrainJob t) = (job1, c)" and
    j: "job' = (if c = Stuck \<or> c = Starved \<or> (\<exists>ev. c = Halted ev) then job1
                else deferred job1)" by blast
  from j assms(2) have "RecvStopChan \<in> set (trace job1)"
    by (auto simp add: deferred_def emit_def split: if_splits)
  with Train_body_post[OF b] obtain pre where
    "c = Fallthrough" "accuracyReached job1" "exitErr job1 = Some forced"
    "trace job1 = pre @ [RecvStopChan, SaveHistory]" "RecvStopChan \<notin> set pre"
    by blast
  with j show ?thesis by (simp add: deferred_def emit_def after_append)
qed

section \<open>The epoch loop of \<open>Train\<close>\<close>

lemma wrap64_id: "- (2 ^ 63) \<le> x \<Longrightarrow> x < 2 ^ 63 \<Longrightarrow> wrap64 x = x"
  by (simp add: wrap64_def)

text \<open>No part of a pass changes the epoch counter or the number of epochs asked for.\<close>

lemma train_keeps:
  "epoch (fst (train e job)) = epoch job \<and> Epochs (task (fst (train e job))) = Epochs (task job)"
  by (simp add: train_def emit_def Let_def split: option.splits if_splits)

lemma negotiate_keeps:
  "epoch (fst (negotiate e job)) = epoch job
   \<and> Epochs (task (fst (negotiate e job))) = Epochs (task job)"
  by (simp add: negotiate_def emit_def Let_def split: option.splits)

lemma validate_keeps:
  "epoch (fst (validate v job)) = epoch job
   \<and> Epochs (task (fst (validate v job))) = Epochs (task job)"
  by (simp add: validate_def emit_def Let_def split: option.splits sum.splits prod.splits)

lemma maybe_validate_keeps:
  "epoch (fst (maybe_validate e job)) = epoch job
   \<and> Epochs (task (fst (maybe_validate e job))) = Epochs (task job)"
  using validate_keeps[of "validation e" job]
  by (cases "validate (validation e) job")
     (simp add: maybe_validate_def emit_def split: call.splits option.splits)

lemma goal_check_keeps:
  "epoch (fst (goal_check e job)) = epoch job
   \<and> Epochs (task (fst (goal_check e job))) = Epochs (task job)"
  by (simp add: goal_check_def emit_def)

lemma epoch_body_keeps:
  "epoch (fst (epoch_body e job)) = epoch job
   \<and> Epochs (task (fst (epoch_body e job))) = Epochs (task job)"
proof -
  have k1: "\<And>j1 r. train e job = (j1, r) \<Longrightarrow>
      epoch j1 = epoch job \<and> Epochs (task j1) = Epochs (task job)"
    using train_keeps[of e job] by simp
  have k2: "\<And>j1 r j2 c2. train e job = (j1, r) \<Longrightarrow> negotiate e j1 = (j2, c2) \<Longrightarrow>
      epoch j2 = epoch job \<and> Epochs (task j2) = Epochs (task job)"
  proof -
    fix j1 r j2 c2 assume "train e job = (j1, r)" "negotiate e j1 = (j2, c2)"
    with k1[of j1 r] negotiate_keeps[of e j1]
    show "epoch j2 = epoch job \<and> Epochs (task j2) = Epochs (task job)" by simp
  qed
  have k3: "\<And>j1 r j2 c2 j3 c3. train e job = (j1, r) \<Longrightarrow> negotiate e j1 = (j2, c2) \<Longrightarrow>
      maybe_validate e ((emit [RecvMerged] j2)\<lparr>merger_at_start := True\<rparr>) = (j3, c3) \<Longrightarrow>
      epoch j3 = epoch job \<and> Epochs (task j3) = Epochs (task job)"
  proof -
    fix j1 r j2 c2 j3 c3 assume "train e job = (j1, r)" "negotiate e j1 = (j2, c2)"
      "maybe_validate e ((emit [RecvMerged] j2)\<lparr>merger_at_start := True\<rparr>) = (j3, c3)"
    with k2[of j1 r j2 c2]
      maybe_validate_keeps[of e "(emit [RecvMerged] j2)\<lparr>merger_at_start := True\<rparr>"]
    show "epoch j3 = epoch job \<and> Epochs (task j3) = Epochs (task job)"
      by (simp add: emit_def)
  qed
  show ?thesis
  proof (cases rule: epoch_body_cases[of e job])
    case (panic j1)
    with k1[OF panic(1)] show ?thesis by simp
  next
    case (no_merger j1)
    with k1[OF no_merger(1)] show ?thesis by simp
  next
    case (train_error j1 er)
    with k1[OF train_error(1)] show ?thesis by (simp add: emit_def)
  next
    case (continue j1 j2)
    with k2[OF continue(1,2)] show ?thesis by simp
  next
    case (no_merged j1 j2)
    with k2[OF no_merged(1,2)] show ?thesis by simp
  next
    case (validation_ends j1 j2 j3 c3)
    with k3[OF validation_ends(1,2,4)] show ?thesis by simp
  next
    case (select j1 j2 j3)
    with k3[OF select(1,2,4)] goal_check_keeps[of e j3] show ?thesis by simp
  qed
qed

lemma maybe_validate_not_starved: "snd (maybe_validate e job) \<noteq> Starved"
  by (cases "validate (validation e) job")
     (auto simp add: maybe_validate_def split: if_splits call.splits option.splits)

lemma epoch_body_not_starved: "snd (epoch_body e job) \<noteq> Starved"
proof (cases rule: epoch_body_cases[of e job])
  case (validation_ends j1 j2 j3 c3)
  with maybe_validate_not_starved[of e "(emit [RecvMerged] j2)\<lparr>merger_at_start := True\<rparr>"]
  show ?thesis by simp
next
  case (select j1 j2 j3)
  then show ?thesis by (simp add: goal_check_def)
qed simp_all

text \<open>
  With one record of answers for each epoch that is left, the loop of \<open>Train\<close> is not
  cut short by the list of answers.
\<close>

lemma main_loop_ends:
  assumes "Epochs (task job) < 2 ^ 63 - 1" "- (2 ^ 63) \<le> epoch job"
    "nat (Epochs (task job) + 1 - epoch job) \<le> length es"
  shows "snd (main_loop es job) \<noteq> Starved"
  using assms
proof (induction es arbitrary: job)
  case Nil
  then show ?case by simp
next
  case (Cons e es)
  show ?case
  proof (cases "epoch job \<le> Epochs (task job)")
    case False
    then show ?thesis by simp
  next
    case True
    obtain j1 c1 where b: "epoch_body e job = (j1, c1)" by (cases "epoch_body e job")
    from epoch_body_keeps[of e job] b have k: "epoch j1 = epoch job" "Epochs (task j1) = Epochs (task job)"
      by simp_all
    let ?j2 = "j1\<lparr>epoch := wrap64 (epoch j1 + 1)\<rparr>"
    from k True Cons.prems have w: "wrap64 (epoch j1 + 1) = epoch job + 1"
      by (simp add: wrap64_id)
    have "snd (main_loop es ?j2) \<noteq> Starved"
      using Cons.prems True k w by (intro Cons.IH) simp_all
    with True b epoch_body_not_starved[of e job] show ?thesis by (cases c1) simp_all
  qed
qed

text \<open>Only \<open>train\<close> invokes the training functions, once in every pass that goes on.\<close>

lemma train_trained:
  "snd (train e job) = Returns r \<Longrightarrow> trained (fst (train e job)) = trained job + 1"
  by (simp add: train_def emit_def Let_def trained_def split: option.splits if_splits)

lemma negotiate_trained: "trained (fst (negotiate e job)) = trained job"
  by (simp add: negotiate_def emit_def Let_def trained_def split: option.splits)

lemma validate_trained: "trained (fst (validate v job)) = trained job"
  by (simp add: validate_def emit_def Let_def trained_def split: option.splits sum.splits prod.splits)

lemma maybe_validate_trained: "trained (fst (maybe_validate e job)) = trained job"
  using validate_trained[of "validation e" job]
  by (cases "validate (validation e) job")
     (simp add: maybe_validate_def emit_def trained_def split: call.splits option.splits)

lemma goal_check_trained: "trained (fst (goal_check e job)) = trained job"
  by (simp add: goal_check_def emit_def trained_def)

lemma epoch_body_trained:
  assumes "epoch_body e job = (job', c)" "c = Fallthrough \<or> c = ContinueMain"
  shows "trained job' = trained job + 1"
proof -
  have k2: "\<And>j1 j2 c2. train e job = (j1, Returns None) \<Longrightarrow> negotiate e j1 = (j2, c2) \<Longrightarrow>
      trained j2 = trained job + 1"
  proof -
    fix j1 j2 c2 assume "train e job = (j1, Returns None)" "negotiate e j1 = (j2, c2)"
    with train_trained[of e job None] negotiate_trained[of e j1]
    show "trained j2 = trained job + 1" by simp
  qed
  have k3: "\<And>j1 j2 c2 j3 c3. train e job = (j1, Returns None) \<Longrightarrow> negotiate e j1 = (j2, c2) \<Longrightarrow>
      maybe_validate e ((emit [RecvMerged] j2)\<lparr>merger_at_start := True\<rparr>) = (j3, c3) \<Longrightarrow>
      trained j3 = trained job + 1"
  proof -
    fix j1 j2 c2 j3 c3 assume "train e job = (j1, Returns None)" "negotiate e j1 = (j2, c2)"
      "maybe_validate e ((emit [RecvMerged] j2)\<lparr>merger_at_start := True\<rparr>) = (j3, c3)"
    with k2[of j1 j2 c2]
      maybe_validate_trained[of e "(emit [RecvMerged] j2)\<lparr>merger_at_start := True\<rparr>"]
    show "trained j3 = trained job + 1" by (simp add: emit_def trained_def)
  qed
  show ?thesis
  proof (cases rule: epoch_body_cases[of e job])
    case (panic j1)
    with assms show ?thesis by auto
  next
    case (no_merger j1)
    with assms show ?thesis by auto
  next
    case (train_error j1 er)
    with assms show ?thesis by auto
  next
    case (continue j1 j2)
    with k2[OF continue(1,2)] assms(1) show ?thesis by (auto simp add: trained_def)
  next
    case (no_merged j1 j2)
    with assms show ?thesis by auto
  next
    case (validation_ends j1 j2 j3 c3)
    with k3[OF validation_ends(1,2,4)] assms(1) show ?thesis by auto
  next
    case (select j1 j2 j3)
    with k3[OF select(1,2,4)] goal_check_trained[of e j3] assms(1) show ?thesis by auto
  qed
qed

text \<open>
  A loop that runs until its condition fails (no \<open>break\<close>, no \<open>return\<close>, no panic) has
  trained once for every epoch from the current one to the last.
\<close>

lemma main_loop_trains_every_epoch:
  assumes "Epochs (task job) < 2 ^ 63 - 1" "- (2 ^ 63) \<le> epoch job"
    "main_loop es job = (job', Fallthrough)"
  shows "trained job' = trained job + nat (Epochs (task job) + 1 - epoch job)
         \<and> epoch job' = max (epoch job) (Epochs (task job) + 1)"
  using assms
proof (induction es arbitrary: job)
  case Nil
  then show ?case by (simp split: if_splits)
next
  case (Cons e es)
  show ?case
  proof (cases "epoch job \<le> Epochs (task job)")
    case False
    with Cons.prems show ?thesis by simp
  next
    case True
    obtain j1 c1 where b: "epoch_body e job = (j1, c1)" by (cases "epoch_body e job")
    from epoch_body_keeps[of e job] b have k: "epoch j1 = epoch job" "Epochs (task j1) = Epochs (task job)"
      by simp_all
    let ?j2 = "j1\<lparr>epoch := wrap64 (epoch j1 + 1)\<rparr>"
    from k True Cons.prems have w: "wrap64 (epoch j1 + 1) = epoch job + 1"
      by (simp add: wrap64_id)
    from True b Cons.prems(3) have c1: "c1 = Fallthrough \<or> c1 = ContinueMain"
      by (cases c1) simp_all
    with True b Cons.prems(3) have l: "main_loop es ?j2 = (job', Fallthrough)" by auto
    from epoch_body_trained[OF b c1] have t1: "trained ?j2 = trained job + 1"
      by (simp add: trained_def)
    have "trained job' = trained ?j2 + nat (Epochs (task ?j2) + 1 - epoch ?j2)
         \<and> epoch job' = max (epoch ?j2) (Epochs (task ?j2) + 1)"
      using Cons.prems True k w l by (intro Cons.IH) simp_all
    with t1 k w True show ?thesis by (simp add: nat_diff_distrib' max_def) 
  qed
qed

lemma final_stage_not_starved: "snd (final_stage v job) \<noteq> Starved"
  by (cases "validate v job")
     (simp add: final_stage_def split: call.splits option.splits)

text \<open>
  \<open>Train\<close> on a new job is not cut short by its list of answers when the list holds
  one record for each epoch asked for.
\<close>

lemma Train_ends:
  assumes "Epochs t < 2 ^ 63 - 1" "nat (Epochs t) \<le> length (epoch_envs env)"
  shows "snd (Train env (NewTrainJob t)) \<noteq> Starved"
proof -
  let ?j0 = "(emit [InitModel] (NewTrainJob t))\<lparr>epoch := 1\<rparr>"
  have j0: "Epochs (task ?j0) = Epochs t" "epoch ?j0 = 1"
    by (simp_all add: emit_def NewTrainJob_def extractTaskSettings_def)
  from assms j0 have l: "snd (main_loop (epoch_envs env) ?j0) \<noteq> Starved"
    by (intro main_loop_ends) simp_all
  obtain j1 c1 where m: "main_loop (epoch_envs env) ?j0 = (j1, c1)"
    by (cases "main_loop (epoch_envs env) ?j0")
  with l have c1: "c1 \<noteq> Starved" by simp
  have "snd (Train_body env (NewTrainJob t)) \<noteq> Starved"
  proof (cases "init env")
    case (Some er)
    then show ?thesis by (simp add: Train_body_def)
  next
    case None
    with m c1 final_stage_not_starved[of "final_validation env" j1] show ?thesis
      by (cases c1) (simp_all add: Train_body_def Let_def)
  qed
  then show ?thesis
    by (cases "Train_body env (NewTrainJob t)"; cases "snd (Train_body env (NewTrainJob t))")
       (auto simp add: Train_def split: ctl.splits)
qed

lemma new_job_trains_every_epoch:
  assumes "Epochs t < 2 ^ 63 - 1"
    "main_loop es ((emit [InitModel] (NewTrainJob t))\<lparr>epoch := 1\<rparr>) = (job1, Fallthrough)"
  shows "trained job1 = nat (Epochs t) \<and> epoch job1 = max 1 (Epochs t + 1)"
proof -
  let ?j0 = "(emit [InitModel] (NewTrainJob t))\<lparr>epoch := 1\<rparr>"
  have j0: "Epochs (task ?j0) = Epochs t" "epoch ?j0 = 1" "trained ?j0 = 0"
    by (simp_all add: emit_def NewTrainJob_def extractTaskSettings_def trained_def)
  from assms j0 main_loop_trains_every_epoch[of ?j0 es job1] show ?thesis by simp
qed

section \<open>The accuracy channel, the forced stop and the teardown\<close>

text \<open>
  C7. Over the whole run of a new job at most one value is sent on \<open>accuracyCh\<close>, and
  the job is never stuck in a send on it: whatever the main loop leaves behind, the last
  validation finds room in the buffer of capacity 1.
\<close>

theorem accuracyCh_single_send:
  "sends (fst (Train env (NewTrainJob t))) \<le> 1
   \<and> snd (Train env (NewTrainJob t)) \<noteq> Stuck
   \<and> (\<forall>job1 c. main_loop (epoch_envs env) ((emit [InitModel] (NewTrainJob t))\<lparr>epoch := 1\<rparr>)
                  = (job1, c)
        \<longrightarrow> snd (final_stage v job1) \<noteq> Stuck)"
proof -
  obtain job' c where r: "Train env (NewTrainJob t) = (job', c)"
    by (cases "Train env (NewTrainJob t)")
  from Train_unfold[OF r] obtain job1 where
    b: "Train_body env (NewTrainJob t) = (job1, c)" and
    j: "job' = (if c = Stuck \<or> c = Starved \<or> (\<exists>ev. c = Halted ev) then job1
                else deferred job1)" by blast
  from Train_body_post[OF b] j have "sends job' \<le> 1" "c \<noteq> Stuck"
    by (auto simp add: deferred_def emit_def sends_def)
  with r final_stage_not_stuck[OF new_job_inv] show ?thesis by simp
qed

theorem accuracyCh_single_send_witness:
  "sends (fst (Train (sample_env [calm_epoch, calm_epoch] high_val) (NewTrainJob sample_task))) = 1
   \<and> accuracyCh (fst (Train (sample_env [calm_epoch, calm_epoch] high_val) (NewTrainJob sample_task))) = 1
   \<and> snd (Train (sample_env [calm_epoch, calm_epoch] high_val) (NewTrainJob sample_task)) = Fallthrough"
  using accuracyCh_single_send [of "sample_env [calm_epoch, calm_epoch] high_val" sample_task high_val]
  by (simp add: late_goal_run sends_def)

text \<open>
  C8. When the select of some epoch takes the stop case, \<open>Train\<close> leaves the loop with
  \<open>exitErr\<close> set to "job was force stopped", saves the history and then runs the
  deferred teardown, whose \<open>JobFinished\<close> carries that error. The teardown (tensors
  cleared, pool closed, \<open>JobFinished\<close> with the recorded \<open>exitErr\<close>) ends the trace
  of every run of \<open>Train\<close> that returns or panics. A run that does neither is blocked
  in an operation on a channel it shares with the merger and has not reached the
  deferred call (or its list of answers was used up).
\<close>

theorem forced_stop_exit:
  assumes "Train env (NewTrainJob t) = (job', c)"
  shows "(RecvStopChan \<in> set (trace job') \<longrightarrow>
            c = Fallthrough \<and> exitErr job' = Some (New ''job was force stopped'')
            \<and> after RecvStopChan (trace job')
                = [RecvStopChan, SaveHistory, ClearTensors, PoolClose,
                   JobFinished (Some (New ''job was force stopped''))])
         \<and> (c = Fallthrough \<or> c = ReturnTrain \<or> c = Crash \<longrightarrow>
              (\<exists>pre. trace job' = pre @ [ClearTensors, PoolClose, JobFinished (exitErr job')]))
         \<and> (c = Fallthrough \<or> c = ReturnTrain \<or> c = Crash \<or> c = Starved
              \<or> (\<exists>ev. c = Halted ev))"
proof -
  from Train_unfold[OF assms] obtain job1 where
    b: "Train_body env (NewTrainJob t) = (job1, c)" and
    j: "job' = (if c = Stuck \<or> c = Starved \<or> (\<exists>ev. c = Halted ev) then job1
                else deferred job1)" by blast
  from Train_body_post[OF b] have n: "c \<noteq> Stuck" "c \<noteq> BreakMain" "c \<noteq> ContinueMain"
    by simp_all
  from j have "c = Fallthrough \<or> c = ReturnTrain \<or> c = Crash \<longrightarrow>
       (\<exists>pre. trace job' = pre @ [ClearTensors, PoolClose, JobFinished (exitErr job')])"
    by (auto simp add: deferred_def emit_def)
  moreover from n have "c = Fallthrough \<or> c = ReturnTrain \<or> c = Crash \<or> c = Starved
              \<or> (\<exists>ev. c = Halted ev)" by (cases c) simp_all
  ultimately show ?thesis using stop_tail[OF assms] by (simp add: forced_def)
qed

theorem forced_stop_exit_witness:
  "RecvStopChan \<in> set (trace (fst (Train (sample_env [stop_epoch, calm_epoch] low_val) (NewTrainJob sample_task))))
   \<and> snd (Train (sample_env [stop_epoch, calm_epoch] low_val) (NewTrainJob sample_task)) = Fallthrough
   \<and> exitErr (fst (Train (sample_env [stop_epoch, calm_epoch] low_val) (NewTrainJob sample_task)))
       = Some (New ''job was force stopped'')
   \<and> after RecvStopChan (trace (fst (Train (sample_env [stop_epoch, calm_epoch] low_val) (NewTrainJob sample_task))))
       = [RecvStopChan, SaveHistory, ClearTensors, PoolClose,
          JobFinished (Some (New ''job was force stopped''))]"
  using forced_stop_exit [OF stop_run] by (simp add: stop_run forced_def)

text \<open>
  C10. A forced stop sets \<open>accuracyReached\<close>, and between the receive on \<open>stopChan\<close>
  and \<open>saveTrainingHistory\<close> nothing happens: no validation is invoked after the stop.
\<close>

theorem forced_stop_skips_validation:
  assumes "Train env (NewTrainJob t) = (job', c)" "RecvStopChan \<in> set (trace job')"
  shows "accuracyReached job'
     \<and> InvokeVal \<notin> set (after RecvStopChan (trace job'))
     \<and> before SaveHistory (after RecvStopChan (trace job')) = [RecvStopChan]"
  using stop_tail[OF assms] by simp

theorem forced_stop_skips_validation_witness:
  "RecvStopChan \<in> set (trace (fst (Train (sample_env [stop_epoch, calm_epoch] low_val) (NewTrainJob sample_task))))
   \<and> accuracyReached (fst (Train (sample_env [stop_epoch, calm_epoch] low_val) (NewTrainJob sample_task)))
   \<and> before SaveHistory (after RecvStopChan
        (trace (fst (Train (sample_env [stop_epoch, calm_epoch] low_val) (NewTrainJob sample_task)))))
       = [RecvStopChan]"
proof -
  have "RecvStopChan \<in> set (trace (fst (Train (sample_env [stop_epoch, calm_epoch] low_val) (NewTrainJob sample_task))))"
    by (simp add: stop_run)
  with forced_stop_skips_validation [OF stop_run] show ?thesis by (simp add: stop_run)
qed

section \<open>The epoch loop of \<open>serveTrainJob\<close>\<close>

text \<open>No pass of the loop of \<open>serveTrainJob\<close> writes \<open>ps.epoch\<close> or \<open>ps.req.Epochs\<close>.\<close>

lemma serve_epoch_keeps:
  "ps_epoch (fst (serve_epoch e ps)) = ps_epoch ps
   \<and> req_Epochs (fst (serve_epoch e ps)) = req_Epochs ps"
  by (simp add: serve_epoch_def ps_emit_def Let_def split: option.splits)

lemma serve_epoch_served: "served (fst (serve_epoch e ps)) = served ps + 1"
  by (simp add: serve_epoch_def ps_emit_def Let_def served_def split: option.splits)

lemma serve_epoch_ok: "snd (serve_epoch ok_answer ps) = False"
  by (simp add: serve_epoch_def ps_emit_def Let_def ok_answer_def)

lemma serveTrainJob_never_finishes:
  "ps_epoch ps \<le> req_Epochs ps \<Longrightarrow> snd (serveTrainJob es ps) \<noteq> PsFinished"
proof (induction es arbitrary: ps)
  case Nil
  then show ?case by simp
next
  case (Cons e es)
  obtain ps1 f where s: "serve_epoch e ps = (ps1, f)" by (cases "serve_epoch e ps")
  with serve_epoch_keeps[of e ps] Cons.prems have "ps_epoch ps1 \<le> req_Epochs ps1" by simp
  from Cons.IH[OF this] s Cons.prems show ?case by (cases f) simp_all
qed

lemma serveTrainJob_goes_on:
  "ps_epoch ps \<le> req_Epochs ps \<Longrightarrow>
     snd (serveTrainJob (replicate n ok_answer) ps) = PsStarved
     \<and> served (fst (serveTrainJob (replicate n ok_answer) ps)) = served ps + n
     \<and> ps_epoch (fst (serveTrainJob (replicate n ok_answer) ps)) = ps_epoch ps"
proof (induction n arbitrary: ps)
  case 0
  then show ?case by simp
next
  case (Suc n)
  obtain ps1 f where s: "serve_epoch ok_answer ps = (ps1, f)" by (cases "serve_epoch ok_answer ps")
  with serve_epoch_ok[of ps] have f: "f = False" by simp
  from serve_epoch_keeps[of ok_answer ps] s Suc.prems have k: "ps_epoch ps1 \<le> req_Epochs ps1"
    "ps_epoch ps1 = ps_epoch ps" by simp_all
  from serve_epoch_served[of ok_answer ps] s have "served ps1 = served ps + 1" by simp
  with Suc.IH[OF k(1)] s f k(2) Suc.prems show ?case by simp
qed

text \<open>
  C5 at the failing input: a parameter server asked for one epoch. Whatever number of
  scheduler answers it is given, \<open>serveTrainJob\<close> runs an epoch for each of them
  (more than the one asked for), \<open>ps.epoch\<close> is still 1, and the loop has not ended;
  no list of answers makes it end normally. (The loop of \<open>TrainJob.Train\<close> advances
  its counter in every pass: \<open>main_loop_ends\<close> and \<open>main_loop_trains_every_epoch\<close>.)
\<close>

theorem serveTrainJob_runs_past_Epochs:
  "snd (serveTrainJob (replicate n ok_answer) (NewPS 2 1)) = PsStarved
   \<and> served (fst (serveTrainJob (replicate n ok_answer) (NewPS 2 1))) = n
   \<and> ps_epoch (fst (serveTrainJob (replicate n ok_answer) (NewPS 2 1))) = 1
   \<and> (\<forall>es. snd (serveTrainJob es (NewPS 2 1)) \<noteq> PsFinished)"
proof -
  have i: "ps_epoch (NewPS 2 1) \<le> req_Epochs (NewPS 2 1)" "served (NewPS 2 1) = 0"
    "ps_epoch (NewPS 2 1) = 1"
    by (simp_all add: NewPS_def served_def)
  from serveTrainJob_goes_on[OF i(1), of n] serveTrainJob_never_finishes[OF i(1)] i(2,3)
  show ?thesis by simp
qed

section \<open>The merger\<close>

text \<open>Every epoch of the outer loop starts with an open \<open>finishCh\<close>.\<close>

lemma arm_open: "open_finishCh (arm ep m)"
  by (simp add: arm_def memit_def open_finishCh_def)

lemma answerFunctions_map:
  "answerFunctions r chs = map (\<lambda>c. Answer c r) (map the (filter (\<lambda>ch. ch \<noteq> None) chs))"
  by (induction r chs rule: answerFunctions.induct) simp_all

lemma answerFunctions_notin:
  "ModelClear \<notin> set (answerFunctions r chs)" "WgWait \<notin> set (answerFunctions r chs)"
  "SendMerged \<notin> set (answerFunctions r chs)" "ModelSave \<notin> set (answerFunctions r chs)"
  by (auto simp add: answerFunctions_map)

lemma answerFunctions_count [simp]: "count_list (answerFunctions r chs) SendMerged = 0"
  by (simp add: count_list_0_iff answerFunctions_notin)

text \<open>The events of one barrier, written out.\<close>

lemma barrier_events_eq:
  assumes "open_finishCh m"
  shows "barrier_events b m =
     [ModelClear, WgWait, CloseFinishCh (finishCh m)] @
     (if arrivals b = [] then [SendErrChan (New ''no functions returned for merging'')]
      else Average (length (arrivals b)) #
        (case Average_res b of
           Some er \<Rightarrow> answerFunctions MergeFailed (map respChan (arrivals b)) @ [SendErrChan er]
         | None \<Rightarrow> ModelSave #
             (case Save_res b of
                Some er \<Rightarrow> LogError ''error saving model''
                   # answerFunctions MergeFailed (map respChan (arrivals b)) @ [SendErrChan er]
              | None \<Rightarrow>
                  if remaining b = 0 then [SendMerged]
                  else if remaining b < 0 then []
                  else WgAdd (remaining b) # MakeFinishCh (remaining b)
                         # answerFunctions MergeSucceeded (map respChan (arrivals b)))))"
  using assms
  by (simp add: barrier_events_def merge_barrier_def memit_def Let_def open_finishCh_def
        split: option.splits)

lemma merge_barrier_end:
  assumes "open_finishCh m"
  shows "snd (merge_barrier b m) =
     (if arrivals b = [] then Failed (New ''no functions returned for merging'')
      else case Average_res b of
             Some er \<Rightarrow> Failed er
           | None \<Rightarrow>
               (case Save_res b of
                  Some er \<Rightarrow> Failed er
                | None \<Rightarrow>
                    if remaining b = 0 then Merged
                    else if remaining b < 0 then MergerCrash else NextBarrier))"
  using assms
  by (simp add: merge_barrier_def memit_def Let_def open_finishCh_def split: option.splits)

lemma merge_barrier_trace:
  "mtrace (fst (merge_barrier b m)) = mtrace m @ barrier_events b m"
  by (simp add: barrier_events_def merge_barrier_def memit_def Let_def split: option.splits)

lemma merge_barrier_next:
  assumes "open_finishCh m" "snd (merge_barrier b m) = NextBarrier"
  shows "merges b \<and> 0 < remaining b \<and> open_finishCh (fst (merge_barrier b m))"
  using assms
  by (auto simp add: merge_barrier_def memit_def Let_def open_finishCh_def merges_def nth_append
        split: option.splits if_splits)

lemma merge_epoch_grows: "\<exists>evs. mtrace (fst (merge_epoch bs m)) = mtrace m @ evs"
proof (induction bs arbitrary: m)
  case Nil
  show ?case by (simp add: memit_def)
next
  case (Cons b bs)
  obtain m1 r where s: "merge_barrier b m = (m1, r)" by (cases "merge_barrier b m")
  from merge_barrier_trace[of b m] s have t: "mtrace m1 = mtrace m @ barrier_events b m" by simp
  show ?case
  proof (cases "r = NextBarrier")
    case True
    from Cons.IH[of m1] obtain evs where "mtrace (fst (merge_epoch bs m1)) = mtrace m1 @ evs" ..
    with True s t show ?thesis by simp
  next
    case False
    with s t show ?thesis by (cases r) simp_all
  qed
qed

lemma merge_epoch_trace: "mtrace (fst (merge_epoch bs m)) = mtrace m @ epoch_events bs m"
  using merge_epoch_grows[of bs m] by (auto simp add: epoch_events_def)

lemma epoch_events_Nil: "epoch_events [] m = [ModelClear, WgWait]"
  by (simp add: epoch_events_def memit_def)

lemma epoch_events_Cons:
  "epoch_events (b # bs) m =
     (if snd (merge_barrier b m) = NextBarrier
      then barrier_events b m @ epoch_events bs (fst (merge_barrier b m))
      else barrier_events b m)"
proof (cases "merge_barrier b m")
  case (Pair m1 r)
  from merge_barrier_trace[of b m] Pair have t: "mtrace m1 = mtrace m @ barrier_events b m" by simp
  show ?thesis
  proof (cases "r = NextBarrier")
    case True
    with Pair t merge_epoch_trace[of bs m1] have
      "mtrace (fst (merge_epoch (b # bs) m))
         = mtrace m @ (barrier_events b m @ epoch_events bs m1)" by simp
    then have "epoch_events (b # bs) m = barrier_events b m @ epoch_events bs m1"
      by (simp add: epoch_events_def[of "b # bs" m])
    with True Pair show ?thesis by simp
  next
    case False
    with Pair t show ?thesis
      by (cases r) (simp_all add: epoch_events_def)
  qed
qed

lemma merge_epoch_Cons_end:
  "snd (merge_epoch (b # bs) m) =
     (if snd (merge_barrier b m) = NextBarrier
      then snd (merge_epoch bs (fst (merge_barrier b m)))
      else snd (merge_barrier b m))"
  by (cases "merge_barrier b m"; cases "snd (merge_barrier b m)") auto

text \<open>What the events of one barrier hold of \<open>SendMerged\<close>, by the way the barrier ends.\<close>

lemma barrier_merged_count:
  assumes "open_finishCh m"
  shows "count_list (barrier_events b m) SendMerged
           = (if snd (merge_barrier b m) = Merged then 1 else 0)"
    and "snd (merge_barrier b m) = Merged \<Longrightarrow> last (barrier_events b m) = SendMerged"
    and "snd (merge_barrier b m) = Failed er \<Longrightarrow> last (barrier_events b m) = SendErrChan er"
    and "snd (merge_barrier b m) = Merged \<longleftrightarrow> merges b \<and> remaining b = 0"
  by (auto simp add: barrier_events_eq[OF assms] merge_barrier_end[OF assms] answerFunctions_count
        merges_def split: option.splits if_splits)

lemma barrier_events_nonempty: "open_finishCh m \<Longrightarrow> barrier_events b m \<noteq> []"
  by (simp add: barrier_events_eq)

text \<open>
  C3, as the code has it. In one epoch the merger sends on \<open>merged\<close> at most once. It
  sends exactly once, as the last thing it does in the epoch, when the epoch ends merged,
  which is the case exactly when the barriers merge successfully with functions still
  remaining (\<open>remaining > 0\<close>) up to a barrier that merges successfully with
  \<open>remaining = job.parallelism - finishedFuncs\<close> equal to zero. An epoch in which a
  barrier fails (no participants, or an error of \<open>Average\<close> or \<open>Save\<close>) sends nothing
  on \<open>merged\<close>: its last event is the error sent on \<open>errChan\<close>.
\<close>

theorem merged_once_per_merged_epoch:
  assumes "open_finishCh m"
  shows "count_list (epoch_events bs m) SendMerged
           = (if snd (merge_epoch bs m) = Merged then 1 else 0)
     \<and> (snd (merge_epoch bs m) = Merged \<longrightarrow> last (epoch_events bs m) = SendMerged)
     \<and> (snd (merge_epoch bs m) = Merged \<longleftrightarrow>
          (\<exists>pre b post. bs = pre @ b # post
              \<and> list_all (\<lambda>p. merges p \<and> 0 < remaining p) pre
              \<and> merges b \<and> remaining b = 0))
     \<and> (\<forall>er. snd (merge_epoch bs m) = Failed er \<longrightarrow>
           SendMerged \<notin> set (epoch_events bs m)
           \<and> last (epoch_events bs m) = SendErrChan er)"
  using assms
proof (induction bs arbitrary: m)
  case Nil
  show ?case by (simp add: epoch_events_Nil)
next
  case (Cons b bs)
  let ?m1 = "fst (merge_barrier b m)"
  note bc = barrier_merged_count[OF Cons.prems, of b]
  show ?case
  proof (cases "snd (merge_barrier b m) = NextBarrier")
    case True
    from merge_barrier_next[OF Cons.prems True] have
      mb: "merges b" "0 < remaining b" and o1: "open_finishCh ?m1" by simp_all
    note IH = Cons.IH[OF o1]
    have ne: "epoch_events bs ?m1 \<noteq> []"
      by (cases bs) (simp_all add: epoch_events_Nil epoch_events_Cons barrier_events_nonempty[OF o1])
    have ex: "(\<exists>pre c post. b # bs = pre @ c # post
                \<and> list_all (\<lambda>p. merges p \<and> 0 < remaining p) pre \<and> merges c \<and> remaining c = 0)
            \<longleftrightarrow> (\<exists>pre c post. bs = pre @ c # post
                \<and> list_all (\<lambda>p. merges p \<and> 0 < remaining p) pre \<and> merges c \<and> remaining c = 0)"
      (is "?L \<longleftrightarrow> ?R")
    proof
      assume ?L
      then obtain pre c post where d: "b # bs = pre @ c # post"
        "list_all (\<lambda>p. merges p \<and> 0 < remaining p) pre" "merges c" "remaining c = 0" by blast
      show ?R
      proof (cases pre)
        case Nil
        with d mb show ?thesis by simp
      next
        case (Cons p pre')
        with d have "bs = pre' @ c # post" "list_all (\<lambda>p. merges p \<and> 0 < remaining p) pre'"
          by simp_all
        with d show ?thesis by blast
      qed
    next
      assume ?R
      then obtain pre c post where d: "bs = pre @ c # post"
        "list_all (\<lambda>p. merges p \<and> 0 < remaining p) pre" "merges c" "remaining c = 0" by blast
      with mb have "b # bs = (b # pre) @ c # post"
        "list_all (\<lambda>p. merges p \<and> 0 < remaining p) (b # pre)" by simp_all
      with d show ?L by blast
    qed
    from True bc(1) have c0: "count_list (barrier_events b m) SendMerged = 0" by simp
    then have n0: "SendMerged \<notin> set (barrier_events b m)" by (simp add: count_list_0_iff)
    from True have e1: "snd (merge_epoch (b # bs) m) = snd (merge_epoch bs ?m1)"
      by (simp add: merge_epoch_Cons_end del: merge_epoch.simps)
    from True have e2: "epoch_events (b # bs) m = barrier_events b m @ epoch_events bs ?m1"
      by (simp add: epoch_events_Cons)
    from IH c0 n0 ne show ?thesis
      unfolding e1 e2 ex by simp
  next
    case False
    have ex: "(\<exists>pre c post. b # bs = pre @ c # post
                \<and> list_all (\<lambda>p. merges p \<and> 0 < remaining p) pre \<and> merges c \<and> remaining c = 0)
            \<longleftrightarrow> merges b \<and> remaining b = 0" (is "?L \<longleftrightarrow> ?R")
    proof
      assume ?L
      then obtain pre c post where d: "b # bs = pre @ c # post"
        "list_all (\<lambda>p. merges p \<and> 0 < remaining p) pre" "merges c" "remaining c = 0" by blast
      show ?R
      proof (cases pre)
        case Nil
        with d show ?thesis by simp
      next
        case (Cons p pre')
        with d have "merges b" "0 < remaining b" by simp_all
        with Cons.prems False show ?thesis
          by (simp add: merge_barrier_end merges_def)
      qed
    next
      assume ?R
      then have "b # bs = [] @ b # bs" "list_all (\<lambda>p. merges p \<and> 0 < remaining p) []"
        "merges b" "remaining b = 0" by simp_all
      then show ?L by blast
    qed
    have f: "\<And>er. snd (merge_barrier b m) = Failed er \<Longrightarrow> SendMerged \<notin> set (barrier_events b m)"
      using bc(1) by (simp add: count_list_0_iff)
    from False have e1: "snd (merge_epoch (b # bs) m) = snd (merge_barrier b m)"
      by (simp add: merge_epoch_Cons_end del: merge_epoch.simps)
    from False have e2: "epoch_events (b # bs) m = barrier_events b m"
      by (simp add: epoch_events_Cons)
    from bc f show ?thesis
      unfolding e1 e2 ex by simp
  qed
qed


lemma sample_merger_open: "open_finishCh sample_merger"
  by (simp add: open_finishCh_def sample_merger_def)

lemma sample_remaining:
  "remaining first_barrier = 1" "remaining second_barrier = 0" "remaining empty_barrier = 0"
  by (simp_all add: remaining_def wrap64_def first_barrier_def second_barrier_def
        empty_barrier_def)

lemma first_barrier_events:
  "barrier_events first_barrier sample_merger
     = [ModelClear, WgWait, CloseFinishCh 0, Average 2, ModelSave, WgAdd 1, MakeFinishCh 1,
        Answer 7 MergeSucceeded]"
  by (subst barrier_events_eq[OF sample_merger_open])
     (simp add: remaining_def wrap64_def first_barrier_def sample_merger_def)

lemma first_barrier_next: "snd (merge_barrier first_barrier sample_merger) = NextBarrier"
  by (subst merge_barrier_end[OF sample_merger_open])
     (simp add: remaining_def wrap64_def first_barrier_def)

lemma first_barrier_state:
  "fst (merge_barrier first_barrier sample_merger)
     = \<lparr>wgIteration = 0, wg_counter = 1, finishCh = 1,
        channels = [\<lparr>capacity = 2, is_closed = True\<rparr>, \<lparr>capacity = 1, is_closed = False\<rparr>],
        mtrace = [ModelClear, WgWait, CloseFinishCh 0, Average 2, ModelSave, WgAdd 1,
                  MakeFinishCh 1, Answer 7 MergeSucceeded]\<rparr>"
  by (simp add: merge_barrier_def Let_def memit_def remaining_def wrap64_def
        first_barrier_def sample_merger_def)

lemma two_barrier_epoch:
  "snd (merge_epoch [first_barrier, second_barrier] sample_merger) = Merged"
  "epoch_events [first_barrier, second_barrier] sample_merger
     = [ModelClear, WgWait, CloseFinishCh 0, Average 2, ModelSave, WgAdd 1, MakeFinishCh 1,
        Answer 7 MergeSucceeded, ModelClear, WgWait, CloseFinishCh 1, Average 1, ModelSave,
        SendMerged]"
proof -
  let ?m1 = "fst (merge_barrier first_barrier sample_merger)"
  have o1: "open_finishCh ?m1"
    by (simp add: first_barrier_state open_finishCh_def)
  have e2: "snd (merge_barrier second_barrier ?m1) = Merged"
    by (subst merge_barrier_end[OF o1]) (simp add: remaining_def wrap64_def second_barrier_def)
  have b2: "barrier_events second_barrier ?m1
              = [ModelClear, WgWait, CloseFinishCh 1, Average 1, ModelSave, SendMerged]"
    by (subst barrier_events_eq[OF o1])
       (simp add: remaining_def wrap64_def second_barrier_def first_barrier_state)
  show "snd (merge_epoch [first_barrier, second_barrier] sample_merger) = Merged"
    by (subst merge_epoch_Cons_end, simp only: first_barrier_next if_True, subst merge_epoch_Cons_end)
       (simp add: e2)
  show "epoch_events [first_barrier, second_barrier] sample_merger
     = [ModelClear, WgWait, CloseFinishCh 0, Average 2, ModelSave, WgAdd 1, MakeFinishCh 1,
        Answer 7 MergeSucceeded, ModelClear, WgWait, CloseFinishCh 1, Average 1, ModelSave,
        SendMerged]"
    by (simp add: epoch_events_Cons first_barrier_next first_barrier_events e2 b2)
qed

lemma empty_barrier_epoch:
  "snd (merge_epoch [empty_barrier] sample_merger)
     = Failed (New ''no functions returned for merging'')"
  "epoch_events [empty_barrier] sample_merger
     = [ModelClear, WgWait, CloseFinishCh 0,
        SendErrChan (New ''no functions returned for merging'')]"
proof -
  have e: "snd (merge_barrier empty_barrier sample_merger)
             = Failed (New ''no functions returned for merging'')"
    by (subst merge_barrier_end[OF sample_merger_open]) (simp add: empty_barrier_def)
  have b: "barrier_events empty_barrier sample_merger
             = [ModelClear, WgWait, CloseFinishCh 0,
                SendErrChan (New ''no functions returned for merging'')]"
    by (subst barrier_events_eq[OF sample_merger_open])
       (simp add: empty_barrier_def sample_merger_def)
  show "snd (merge_epoch [empty_barrier] sample_merger)
     = Failed (New ''no functions returned for merging'')"
    by (subst merge_epoch_Cons_end) (simp add: e)
  show "epoch_events [empty_barrier] sample_merger
     = [ModelClear, WgWait, CloseFinishCh 0,
        SendErrChan (New ''no functions returned for merging'')]"
    by (simp add: epoch_events_Cons e b)
qed

theorem merged_once_per_merged_epoch_witness:
  "open_finishCh sample_merger
   \<and> snd (merge_epoch [first_barrier, second_barrier] sample_merger) = Merged
   \<and> count_list (epoch_events [first_barrier, second_barrier] sample_merger) SendMerged = 1
   \<and> last (epoch_events [first_barrier, second_barrier] sample_merger) = SendMerged
   \<and> snd (merge_epoch [empty_barrier] sample_merger)
       = Failed (New ''no functions returned for merging'')
   \<and> SendMerged \<notin> set (epoch_events [empty_barrier] sample_merger)"
  using merged_once_per_merged_epoch [OF sample_merger_open, of "[first_barrier, second_barrier]"]
    merged_once_per_merged_epoch [OF sample_merger_open, of "[empty_barrier]"]
  by (simp add: sample_merger_open two_barrier_epoch empty_barrier_epoch
        del: merge_epoch.simps)

text \<open>
  The claim C3 as stated fails for an epoch whose barrier has no participants: the merger
  reports on \<open>errChan\<close> and leaves the epoch with no signal on \<open>merged\<close>.
\<close>

theorem merged_in_failed_epoch_counterexample:
  "open_finishCh sample_merger
   \<and> snd (merge_epoch [empty_barrier] sample_merger)
       = Failed (New ''no functions returned for merging'')
   \<and> count_list (epoch_events [empty_barrier] sample_merger) SendMerged = 0"
  by (simp add: sample_merger_open empty_barrier_epoch del: merge_epoch.simps)

text \<open>
  C4, as the code has it. At every barrier the merger first calls \<open>Model.Clear()\<close>, then
  waits for \<open>wgIteration\<close>, then closes (and drains) \<open>finishCh\<close>, then, when there are
  participants, calls \<open>Average\<close> with their number and, when that succeeds, \<open>Save\<close>.
  \<open>Clear\<close> is the only event ahead of the wait and is not called again after it.
\<close>

theorem barrier_order:
  assumes "open_finishCh m"
  shows "take 3 (barrier_events b m) = [ModelClear, WgWait, CloseFinishCh (finishCh m)]
     \<and> (arrivals b \<noteq> [] \<longrightarrow>
          take 4 (barrier_events b m)
            = [ModelClear, WgWait, CloseFinishCh (finishCh m), Average (length (arrivals b))])
     \<and> (arrivals b \<noteq> [] \<and> Average_res b = None \<longrightarrow>
          take 5 (barrier_events b m)
            = [ModelClear, WgWait, CloseFinishCh (finishCh m), Average (length (arrivals b)),
               ModelSave])
     \<and> before WgWait (barrier_events b m) = [ModelClear]
     \<and> ModelClear \<notin> set (after WgWait (barrier_events b m))"
  by (auto simp add: barrier_events_eq[OF assms] answerFunctions_map split: option.splits)

theorem barrier_order_witness:
  "open_finishCh sample_merger \<and> arrivals first_barrier \<noteq> [] \<and> Average_res first_barrier = None
   \<and> take 5 (barrier_events first_barrier sample_merger)
       = [ModelClear, WgWait, CloseFinishCh 0, Average 2, ModelSave]"
proof -
  have a: "arrivals first_barrier \<noteq> []" "Average_res first_barrier = None"
    "length (arrivals first_barrier) = 2" "finishCh sample_merger = 0"
    by (simp_all add: first_barrier_def sample_merger_def)
  from barrier_order [OF sample_merger_open, of first_barrier] show ?thesis
    by (simp add: sample_merger_open a)
qed

text \<open>
  The claim C4 as stated fails at the first barrier of the sample epoch: \<open>Clear\<close> is
  called ahead of the wait, and the wait is not ahead of \<open>Clear\<close>.
\<close>

theorem clear_after_wait_counterexample:
  "open_finishCh sample_merger
   \<and> before WgWait (barrier_events first_barrier sample_merger) = [ModelClear]
   \<and> WgWait \<notin> set (before ModelClear (barrier_events first_barrier sample_merger))"
  by (simp add: sample_merger_open first_barrier_events)

lemma set_non_nil:
  "ch \<in> set (map the (filter (\<lambda>c. c \<noteq> None) chs)) \<longleftrightarrow> Some ch \<in> set chs"
  by (induction chs) auto

text \<open>
  C6, as the code has it. At a barrier whose merge succeeds with \<open>remaining > 0\<close> the
  merger goes on to the next barrier; it keeps the same wait group and adds
  \<open>remaining\<close> to its counter, which the wait left at zero; it makes a new channel
  of capacity \<open>remaining\<close> for \<open>finishCh\<close>, at an address no channel had before, the old
  channel staying closed; and after \<open>Save\<close> it sends \<open>MergeSucceeded\<close> on the response
  channels of the barrier that are not nil, in their order, and on nothing else.
\<close>

theorem nonfinal_release:
  assumes "open_finishCh m" "merges b" "0 < remaining b"
  shows "snd (merge_barrier b m) = NextBarrier
     \<and> wgIteration (fst (merge_barrier b m)) = wgIteration m
     \<and> wg_counter (fst (merge_barrier b m)) = remaining b
     \<and> finishCh (fst (merge_barrier b m)) = length (channels m)
     \<and> channels (fst (merge_barrier b m))
         = (channels m)[finishCh m := (channels m ! finishCh m)\<lparr>is_closed := True\<rparr>]
             @ [\<lparr>capacity = remaining b, is_closed = False\<rparr>]
     \<and> after ModelSave (barrier_events b m)
         = ModelSave # WgAdd (remaining b) # MakeFinishCh (remaining b)
             # map (\<lambda>ch. Answer ch MergeSucceeded) (waiting_chans b)
     \<and> (\<forall>ch r. Answer ch r \<in> set (barrier_events b m)
            \<longleftrightarrow> r = MergeSucceeded \<and> Some ch \<in> set (map respChan (arrivals b)))"
proof -
  from assms have ev: "barrier_events b m =
      [ModelClear, WgWait, CloseFinishCh (finishCh m), Average (length (arrivals b)), ModelSave,
       WgAdd (remaining b), MakeFinishCh (remaining b)]
      @ map (\<lambda>ch. Answer ch MergeSucceeded) (waiting_chans b)"
    by (simp add: barrier_events_eq merges_def answerFunctions_map waiting_chans_def)
  have w: "\<And>ch. ch \<in> set (waiting_chans b) \<longleftrightarrow> Some ch \<in> set (map respChan (arrivals b))"
    unfolding waiting_chans_def by (rule set_non_nil)
  from assms have st: "snd (merge_barrier b m) = NextBarrier"
    by (simp add: merge_barrier_end merges_def)
  from assms have
    "wgIteration (fst (merge_barrier b m)) = wgIteration m"
    "wg_counter (fst (merge_barrier b m)) = remaining b"
    "finishCh (fst (merge_barrier b m)) = length (channels m)"
    "channels (fst (merge_barrier b m))
         = (channels m)[finishCh m := (channels m ! finishCh m)\<lparr>is_closed := True\<rparr>]
             @ [\<lparr>capacity = remaining b, is_closed = False\<rparr>]"
    by (simp_all add: merge_barrier_def Let_def memit_def open_finishCh_def merges_def)
  with st ev w show ?thesis by (auto simp add: image_iff)
qed

theorem nonfinal_release_witness:
  "open_finishCh sample_merger \<and> merges first_barrier \<and> 0 < remaining first_barrier
   \<and> snd (merge_barrier first_barrier sample_merger) = NextBarrier
   \<and> wg_counter (fst (merge_barrier first_barrier sample_merger)) = 1
   \<and> finishCh (fst (merge_barrier first_barrier sample_merger)) = 1
   \<and> length (channels sample_merger) = 1
   \<and> after ModelSave (barrier_events first_barrier sample_merger)
       = [ModelSave, WgAdd 1, MakeFinishCh 1, Answer 7 MergeSucceeded]"
proof -
  have h: "merges first_barrier" "0 < remaining first_barrier"
    by (simp_all add: sample_remaining merges_def) (simp add: first_barrier_def)
  have w: "waiting_chans first_barrier = [7]"
    by (simp add: waiting_chans_def first_barrier_def)
  from nonfinal_release [OF sample_merger_open h] show ?thesis
    by (simp add: sample_merger_open h sample_remaining w) (simp add: sample_merger_def)
qed

text \<open>
  The claim C6 as stated ("primitives are never reused across barriers") fails at the
  first barrier of the sample epoch: \<open>finishCh\<close> is a new channel, but \<open>wgIteration\<close>
  is the wait group it was before.
\<close>

theorem wait_group_reused_counterexample:
  "snd (merge_barrier first_barrier sample_merger) = NextBarrier
   \<and> wgIteration (fst (merge_barrier first_barrier sample_merger)) = wgIteration sample_merger
   \<and> finishCh (fst (merge_barrier first_barrier sample_merger)) \<noteq> finishCh sample_merger"
proof -
  have "wgIteration sample_merger = 0" "finishCh sample_merger = 0"
    by (simp_all add: sample_merger_def)
  then show ?thesis
    by (simp add: first_barrier_next first_barrier_state)
qed

end
